theory Spec2Isabelle
  imports Complex_Main
begin

section \<open>Values, errors and tensors\<close>

text \<open>
  The model follows \<^verbatim>\<open>crate.py\<close> and \<^verbatim>\<open>data.py\<close>. A Python exception is a value of
  \<open>pyerror\<close>, and a function that can raise returns \<open>pyerror + 'a\<close> with the exception
  on the left. A float is a \<open>real\<close>: the arithmetic is exact, rounding, infinities and NaN
  are not part of the model. A size (a dimension, a count of heads or layers) is a \<open>nat\<close>.
  A tensor is a nested list in row-major order, one level per dimension; sizes that the
  nesting cannot show (those of a tensor with an empty dimension) are taken from the
  module that owns the tensor.
\<close>

datatype pyerror =
    AssertionError string
  | TypeError
  | AttributeError
  | ZeroDivisionError
  | ValueError
  | IndexError
  | RuntimeError

type_synonym vec = "real list"
type_synonym mat = "real list list"
type_synonym tensor3 = "real list list list"
type_synonym tensor4 = "real list list list list"

definition is_mat :: "nat \<Rightarrow> nat \<Rightarrow> 'a list list \<Rightarrow> bool" where
  "is_mat r c m = (length m = r \<and> list_all (\<lambda>row. length row = c) m)"

definition is_tensor3 :: "nat \<Rightarrow> nat \<Rightarrow> nat \<Rightarrow> tensor3 \<Rightarrow> bool" where
  "is_tensor3 b n d x = (length x = b \<and> list_all (is_mat n d) x)"

text \<open>Random initial values (\<^verbatim>\<open>kaiming_uniform_\<close>, \<^verbatim>\<open>torch.randn\<close>, the default
  initialisation of \<^verbatim>\<open>nn.Linear\<close>) are an input of the model: a function from the
  position to the value drawn there.\<close>

definition rand_mat :: "(nat \<Rightarrow> nat \<Rightarrow> real) \<Rightarrow> nat \<Rightarrow> nat \<Rightarrow> mat" where
  "rand_mat g r c = map (\<lambda>i. map (\<lambda>j. g i j) [0..<c]) [0..<r]"

definition dot :: "vec \<Rightarrow> vec \<Rightarrow> real" where
  "dot u v = sum_list (map2 (*) u v)"

text \<open>\<^verbatim>\<open>W.t()\<close> of a matrix with \<open>c\<close> columns.\<close>

definition mat_t :: "nat \<Rightarrow> mat \<Rightarrow> mat" where
  "mat_t c W = map (\<lambda>j. map (\<lambda>row. row ! j) W) [0..<c]"

text \<open>\<^verbatim>\<open>F.linear(x, W, bias=None)\<close> for a weight of shape \<open>(out, in_features)\<close> and an
  input of shape \<open>(B, N, in_features)\<close>: every vector \<open>v\<close> of the last dimension becomes
  \<open>v \<cdot> W\<^sup>T\<close>, whose entry \<open>o\<close> is \<open>\<Sum>i. v[i] * W[o][i]\<close>. A last dimension of another
  size is torch's shape error.\<close>

definition linear :: "nat \<Rightarrow> mat \<Rightarrow> tensor3 \<Rightarrow> pyerror + tensor3" where
  "linear in_features W x =
     (if list_all (list_all (\<lambda>v. length v = in_features)) x
      then Inr (map (map (\<lambda>v. map (\<lambda>w. dot v w) W)) x)
      else Inl RuntimeError)"

definition relu :: "real \<Rightarrow> real" where
  "relu v = max 0 v"

definition map3 :: "(real \<Rightarrow> real) \<Rightarrow> tensor3 \<Rightarrow> tensor3" where
  "map3 f x = map (map (map f)) x"

text \<open>An elementwise operation on two tensors of one shape.\<close>

definition zip3 :: "(real \<Rightarrow> real \<Rightarrow> real) \<Rightarrow> tensor3 \<Rightarrow> tensor3 \<Rightarrow> tensor3" where
  "zip3 f x y = map2 (map2 (map2 f)) x y"

section \<open>The feed-forward block\<close>

text \<open>\<^verbatim>\<open>FeedForward\<close>: \<open>ff_dim\<close> is the \<open>dim\<close> of \<^verbatim>\<open>torch.Tensor(dim, dim)\<close>, the shape
  of \<open>weight\<close>. The constructor stores neither \<open>hidden_dim\<close> nor \<open>dropout\<close>.\<close>

record FeedForward =
  ff_dim :: nat
  weight :: mat
  step_size :: real
  lambd :: real

definition FeedForward_init ::
  "nat \<Rightarrow> nat \<Rightarrow> real \<Rightarrow> real \<Rightarrow> (nat \<Rightarrow> nat \<Rightarrow> real) \<Rightarrow> FeedForward" where
  "FeedForward_init d hidden_dim dropout step g =
     \<lparr>ff_dim = d, weight = rand_mat g d d, step_size = step, lambd = 0.1\<rparr>"

definition FeedForward_forward :: "FeedForward \<Rightarrow> tensor3 \<Rightarrow> pyerror + tensor3" where
  "FeedForward_forward self x =
     (case linear (ff_dim self) (weight self) x of
        Inl e \<Rightarrow> Inl e
      | Inr x1 \<Rightarrow>
     (case linear (ff_dim self) (mat_t (ff_dim self) (weight self)) x1 of
        Inl e \<Rightarrow> Inl e
      | Inr grad_1 \<Rightarrow>
     (case linear (ff_dim self) (mat_t (ff_dim self) (weight self)) x of
        Inl e \<Rightarrow> Inl e
      | Inr grad_2 \<Rightarrow>
          let grad_update =
                map3 (\<lambda>v. v - step_size self * lambd self)
                  (map3 (\<lambda>v. step_size self * v) (zip3 (-) grad_2 grad_1))
          in Inr (map3 relu (zip3 (+) x grad_update)))))"

text \<open>The block as the specification words it, on the matrix product \<open>A \<cdot> B\<close> of an
  \<open>n \<times> k\<close> matrix with a \<open>k \<times> m\<close> matrix and the transpose \<open>D\<^sup>T\<close>:
  \<open>x1 = x \<cdot> D\<^sup>T\<close>, \<open>grad_1 = x1 \<cdot> D\<close>, \<open>grad_2 = x \<cdot> D\<close>,
  \<open>update = s \<cdot> (grad_2 - grad_1) - s \<cdot> \<lambda>\<close>, \<open>output = ReLU(x + update)\<close>.\<close>

definition matmul :: "nat \<Rightarrow> mat \<Rightarrow> mat \<Rightarrow> mat" where
  "matmul m A B = map (\<lambda>r. map (\<lambda>j. \<Sum>k\<leftarrow>[0..<length r]. r ! k * B ! k ! j) [0..<m]) A"

definition spec_feed_forward :: "nat \<Rightarrow> real \<Rightarrow> real \<Rightarrow> mat \<Rightarrow> mat \<Rightarrow> mat" where
  "spec_feed_forward d s l D x =
     (let x1 = matmul d x (mat_t d D);
          grad_1 = matmul d x1 D;
          grad_2 = matmul d x D;
          update = map2 (map2 (\<lambda>g2 g1. s * (g2 - g1) - s * l)) grad_2 grad_1
      in map2 (map2 (\<lambda>a u. relu (a + u))) x update)"

section \<open>Dropout, softmax and layer normalisation\<close>

text \<open>\<^verbatim>\<open>nn.Dropout(p)\<close>: the constructor rejects a rate outside \<open>[0, 1]\<close>; a new module is
  in training mode. In training mode with a positive rate an entry is kept and divided by
  \<open>1 - p\<close>, or set to zero; which of the two is the random draw, an input of the model
  (\<open>keep\<close>, by position). With rate 1 every entry becomes zero. Outside training mode, or
  with rate 0, the input is returned.\<close>

record Dropout =
  drop_p :: real
  drop_training :: bool

definition Dropout_init :: "real \<Rightarrow> pyerror + Dropout" where
  "Dropout_init rate =
     (if rate < 0 \<or> rate > 1 then Inl ValueError
      else Inr \<lparr>drop_p = rate, drop_training = True\<rparr>)"

definition dropout_elem :: "Dropout \<Rightarrow> bool \<Rightarrow> real \<Rightarrow> real" where
  "dropout_elem self keep v =
     (if drop_training self \<and> drop_p self > 0
      then (if drop_p self = 1 then 0 else if keep then v / (1 - drop_p self) else 0)
      else v)"

definition dropout3 :: "Dropout \<Rightarrow> (nat \<Rightarrow> nat \<Rightarrow> nat \<Rightarrow> bool) \<Rightarrow> tensor3 \<Rightarrow> tensor3" where
  "dropout3 self keep t =
     map (\<lambda>b. map (\<lambda>i. map (\<lambda>j. dropout_elem self (keep b i j) (t ! b ! i ! j))
       [0..<length (t ! b ! i)]) [0..<length (t ! b)]) [0..<length t]"

definition dropout4 ::
  "Dropout \<Rightarrow> (nat \<Rightarrow> nat \<Rightarrow> nat \<Rightarrow> nat \<Rightarrow> bool) \<Rightarrow> tensor4 \<Rightarrow> tensor4" where
  "dropout4 self keep t =
     map (\<lambda>b. map (\<lambda>h. map (\<lambda>i. map (\<lambda>j. dropout_elem self (keep b h i j) (t ! b ! h ! i ! j))
       [0..<length (t ! b ! h ! i)]) [0..<length (t ! b ! h)]) [0..<length (t ! b)])
       [0..<length t]"

text \<open>\<^verbatim>\<open>nn.Softmax(dim = -1)\<close> on one vector of the last dimension, as the exact function.
  The library rounds its values, so a row of its result need not sum to exactly 1 and a
  small weight can be lost in the sum; no property below rests on the values of the
  softmax or on the sum of a row of them.\<close>

definition softmax :: "vec \<Rightarrow> vec" where
  "softmax v = map (\<lambda>a. exp a / sum_list (map exp v)) v"

text \<open>\<^verbatim>\<open>nn.LayerNorm(dim)\<close>: the learned scale and shift of length \<open>ln_dim\<close> and the
  constant \<open>eps\<close>; a vector of the last dimension is centred, divided by the square root of
  its (biased) variance plus \<open>eps\<close>, scaled and shifted. A last dimension of another size
  is a shape error.\<close>

record LayerNorm =
  ln_dim :: nat
  ln_weight :: vec
  ln_bias :: vec
  ln_eps :: real

definition LayerNorm_init :: "nat \<Rightarrow> LayerNorm" where
  "LayerNorm_init d =
     \<lparr>ln_dim = d, ln_weight = replicate d 1, ln_bias = replicate d 0, ln_eps = 1 / 100000\<rparr>"

definition mean :: "vec \<Rightarrow> real" where
  "mean v = sum_list v / real (length v)"

definition layer_norm_vec :: "LayerNorm \<Rightarrow> vec \<Rightarrow> vec" where
  "layer_norm_vec self v =
     (let mu = mean v; var = mean (map (\<lambda>a. (a - mu)\<^sup>2) v)
      in map (\<lambda>k. (v ! k - mu) / sqrt (var + ln_eps self) * ln_weight self ! k + ln_bias self ! k)
           [0..<length v])"

definition LayerNorm_forward :: "LayerNorm \<Rightarrow> tensor3 \<Rightarrow> pyerror + tensor3" where
  "LayerNorm_forward self x =
     (if list_all (list_all (\<lambda>v. length v = ln_dim self)) x
      then Inr (map (map (layer_norm_vec self)) x)
      else Inl RuntimeError)"

section \<open>The attention block\<close>

text \<open>\<^verbatim>\<open>Attention\<close>: \<open>att_dim\<close> and \<open>att_dim_head * att_heads\<close> are the input and output
  sizes of \<^verbatim>\<open>self.qkv\<close>, whose weight \<open>att_qkv\<close> has shape \<open>(inner_dim, dim)\<close>;
  \<open>att_to_out\<close> is \<open>None\<close> for \<^verbatim>\<open>nn.Identity()\<close> and otherwise holds the weight
  \<open>(dim, inner_dim)\<close> and bias of the output projection and its dropout.\<close>

record Attention =
  att_dim :: nat
  att_heads :: nat
  att_dim_head :: nat
  att_scale :: real
  att_dropout :: Dropout
  att_qkv :: mat
  att_to_out :: "(mat \<times> vec \<times> Dropout) option"

text \<open>The constructor. \<^verbatim>\<open>dim_head ** -0.5\<close> raises for \<open>dim_head = 0\<close>. The initial
  weights are the draws \<open>g_qkv\<close>, \<open>g_out\<close>, \<open>g_bias\<close>.\<close>

definition Attention_init ::
  "nat \<Rightarrow> nat \<Rightarrow> nat \<Rightarrow> real \<Rightarrow> (nat \<Rightarrow> nat \<Rightarrow> real) \<Rightarrow> (nat \<Rightarrow> nat \<Rightarrow> real) \<Rightarrow> (nat \<Rightarrow> real)
     \<Rightarrow> pyerror + Attention" where
  "Attention_init d heads dim_head dropout g_qkv g_out g_bias =
     (let inner_dim = dim_head * heads;
          project_out = \<not> (heads = 1 \<and> dim_head = d)
      in if dim_head = 0 then Inl ZeroDivisionError
         else case Dropout_init dropout of
           Inl e \<Rightarrow> Inl e
         | Inr dr \<Rightarrow>
             Inr \<lparr>att_dim = d, att_heads = heads, att_dim_head = dim_head,
                  att_scale = real dim_head powr (- 0.5),
                  att_dropout = dr,
                  att_qkv = rand_mat g_qkv inner_dim d,
                  att_to_out =
                    (if project_out
                     then Some (rand_mat g_out d inner_dim, map g_bias [0..<d], dr)
                     else None)\<rparr>)"

text \<open>\<^verbatim>\<open>rearrange(t, 'b n (h d) -> b h n d', h = heads)\<close> and
  \<^verbatim>\<open>rearrange(t, 'b h n d -> b n (h d)')\<close> for a sequence length \<open>n\<close>.\<close>

definition split_heads :: "nat \<Rightarrow> nat \<Rightarrow> tensor3 \<Rightarrow> tensor4" where
  "split_heads h d t =
     map (\<lambda>tb. map (\<lambda>hi. map (\<lambda>row. take d (drop (hi * d) row)) tb) [0..<h]) t"

definition merge_heads :: "nat \<Rightarrow> tensor4 \<Rightarrow> tensor3" where
  "merge_heads n t = map (\<lambda>tb. map (\<lambda>i. concat (map (\<lambda>th. th ! i) tb)) [0..<n]) t"

text \<open>Line 64: the shared projection \<open>w\<close>, of shape \<open>(B, heads, N, dim_head)\<close>. A split into
  zero heads is an error of \<^verbatim>\<open>rearrange\<close>.\<close>

definition Attention_w :: "Attention \<Rightarrow> tensor3 \<Rightarrow> pyerror + tensor4" where
  "Attention_w self x =
     (case linear (att_dim self) (att_qkv self) x of
        Inl e \<Rightarrow> Inl e
      | Inr y \<Rightarrow>
          if att_heads self = 0 then Inl RuntimeError
          else Inr (split_heads (att_heads self) (att_dim_head self) y))"

text \<open>Line 66: \<^verbatim>\<open>torch.matmul(w, w.transpose(-1, -2)) * self.scale\<close>.\<close>

definition dots_of :: "nat \<Rightarrow> real \<Rightarrow> tensor4 \<Rightarrow> tensor4" where
  "dots_of d sc w =
     map (map (\<lambda>m. map (map (\<lambda>v. v * sc)) (matmul (length m) m (mat_t d m)))) w"

definition Attention_dots :: "Attention \<Rightarrow> tensor3 \<Rightarrow> pyerror + tensor4" where
  "Attention_dots self x =
     (case Attention_w self x of
        Inl e \<Rightarrow> Inl e
      | Inr w \<Rightarrow> Inr (dots_of (att_dim_head self) (att_scale self) w))"

text \<open>Broadcasting of two sizes, and the index read in a dimension of size \<open>n\<close> for the
  index \<open>i\<close> of the result.\<close>

definition bdim :: "nat \<Rightarrow> nat \<Rightarrow> nat option" where
  "bdim a b = (if a = b then Some a else if a = 1 then Some b else if b = 1 then Some a else None)"

definition bidx :: "nat \<Rightarrow> nat \<Rightarrow> nat" where
  "bidx n i = (if n = 1 then 0 else i)"

definition seq_len :: "'a list list \<Rightarrow> nat" where
  "seq_len x = (case x of [] \<Rightarrow> 0 | m # _ \<Rightarrow> length m)"

text \<open>Lines 71 and 72: \<^verbatim>\<open>attn * (1.0 - mask[:, None, None, :].float())\<close> for an
  \<open>attn\<close> of shape \<open>(B, heads, n, n)\<close> and a mask of shape \<open>(Bm, Nm)\<close>, with torch's
  broadcasting of the first and of the last dimension.\<close>

definition mask_mul :: "nat \<Rightarrow> tensor4 \<Rightarrow> bool list list \<Rightarrow> pyerror + tensor4" where
  "mask_mul n attn msk =
     (case (bdim (length attn) (length msk), bdim n (seq_len msk)) of
        (Some B', Some n') \<Rightarrow>
          Inr (map (\<lambda>b. map (\<lambda>h. map (\<lambda>i. map (\<lambda>j.
                 attn ! bidx (length attn) b ! h ! i ! bidx n j
                   * (1 - (if msk ! bidx (length msk) b ! bidx (seq_len msk) j then 1 else 0)))
               [0..<n'])
               [0..<length (attn ! bidx (length attn) b ! h)])
               [0..<length (attn ! bidx (length attn) b)])
               [0..<B'])
      | _ \<Rightarrow> Inl RuntimeError)"

text \<open>Lines 68 to 72: the attention weights that form the output.\<close>

definition Attention_attn ::
  "Attention \<Rightarrow> (nat \<Rightarrow> nat \<Rightarrow> nat \<Rightarrow> nat \<Rightarrow> bool) \<Rightarrow> tensor3 \<Rightarrow> bool list list option
     \<Rightarrow> pyerror + tensor4" where
  "Attention_attn self keep x msk =
     (case Attention_dots self x of
        Inl e \<Rightarrow> Inl e
      | Inr dots \<Rightarrow>
          let attn = map (map (map softmax)) dots;
              attn = dropout4 (att_dropout self) keep attn
          in case msk of
               None \<Rightarrow> Inr attn
             | Some m \<Rightarrow> mask_mul (seq_len x) attn m)"

text \<open>Line 74: \<^verbatim>\<open>torch.matmul(attn, w)\<close>; the batch dimension of \<open>w\<close> is broadcast to
  that of \<open>attn\<close>, and the rows of \<open>attn\<close> must be as long as the sequence.\<close>

definition attn_matmul :: "nat \<Rightarrow> nat \<Rightarrow> tensor4 \<Rightarrow> tensor4 \<Rightarrow> pyerror + tensor4" where
  "attn_matmul n d attn w =
     (if list_all (list_all (list_all (\<lambda>r. length r = n))) attn
      then Inr (map (\<lambda>b. map (\<lambda>h. matmul d (attn ! b ! h) (w ! bidx (length w) b ! h))
                  [0..<length (attn ! b)]) [0..<length attn])
      else Inl RuntimeError)"

text \<open>\<^verbatim>\<open>self.to_out\<close>: the identity, or the linear layer with its bias and the dropout.\<close>

definition to_out_forward ::
  "nat \<Rightarrow> (mat \<times> vec \<times> Dropout) option \<Rightarrow> (nat \<Rightarrow> nat \<Rightarrow> nat \<Rightarrow> bool) \<Rightarrow> tensor3
     \<Rightarrow> pyerror + tensor3" where
  "to_out_forward inner_dim to_out keep_out y =
     (case to_out of
        None \<Rightarrow> Inr y
      | Some (W, bias, dr) \<Rightarrow>
          (case linear inner_dim W y of
             Inl e \<Rightarrow> Inl e
           | Inr z \<Rightarrow> Inr (dropout3 dr keep_out (map (map (\<lambda>v. map2 (+) v bias)) z))))"

definition Attention_forward ::
  "Attention \<Rightarrow> (nat \<Rightarrow> nat \<Rightarrow> nat \<Rightarrow> nat \<Rightarrow> bool) \<Rightarrow> (nat \<Rightarrow> nat \<Rightarrow> nat \<Rightarrow> bool) \<Rightarrow> tensor3
     \<Rightarrow> bool list list option \<Rightarrow> pyerror + tensor3" where
  "Attention_forward self keep keep_out x msk =
     (case Attention_w self x of
        Inl e \<Rightarrow> Inl e
      | Inr w \<Rightarrow>
     (case Attention_attn self keep x msk of
        Inl e \<Rightarrow> Inl e
      | Inr attn \<Rightarrow>
     (case attn_matmul (seq_len x) (att_dim_head self) attn w of
        Inl e \<Rightarrow> Inl e
      | Inr out \<Rightarrow>
          to_out_forward (att_dim_head self * att_heads self) (att_to_out self) keep_out
            (merge_heads (seq_len x) out))))"

section \<open>Python calls\<close>

text \<open>The configuration object \<^verbatim>\<open>cfg\<close> of \<^verbatim>\<open>Transformer\<close> and \<^verbatim>\<open>Embeddings\<close> is not
  defined in the repository's files; the record has the attributes the code reads.\<close>

record Config =
  cfg_dim :: nat
  cfg_n_layers :: nat
  cfg_n_heads :: nat
  cfg_p_drop_attn :: real
  cfg_vocab_size :: nat
  cfg_max_len :: nat
  cfg_n_segments :: nat
  cfg_p_drop_hidden :: real

text \<open>The values that the calls of \<^verbatim>\<open>crate.py\<close> pass: numbers, strings, \<^verbatim>\<open>None\<close>, a
  configuration, a float tensor of shape \<open>(B, N, dim)\<close>, a boolean mask of shape
  \<open>(B, N)\<close> and an integer tensor of shape \<open>(B, S)\<close>.\<close>

datatype pyval =
    PyNone
  | PyInt int
  | PyFloat real
  | PyStr string
  | PyCfg Config
  | PyTensor tensor3
  | PyMask "bool list list"
  | PyIds "int list list"

text \<open>The parameters of a \<^verbatim>\<open>def\<close> after \<^verbatim>\<open>self\<close>: those that take a positional or a
  keyword argument, those behind \<^verbatim>\<open>*\<close> that take a keyword argument only (each with its
  default, if it has one), and whether \<^verbatim>\<open>**kwargs\<close> takes the other keywords.\<close>

record pysig =
  sig_params :: "(string \<times> pyval option) list"
  sig_kwonly :: "(string \<times> pyval option) list"
  sig_varkw :: bool

text \<open>Python's binding of the arguments of a call: too many positional arguments, a
  parameter given twice, a keyword that no parameter takes and a parameter without
  default that is not given are each a \<^verbatim>\<open>TypeError\<close>.\<close>

definition bind_args ::
  "pysig \<Rightarrow> pyval list \<Rightarrow> (string \<times> pyval) list \<Rightarrow> pyerror + (string \<times> pyval) list" where
  "bind_args sg args kwargs =
     (let names = map fst (sig_params sg);
          given = zip names args @ kwargs;
          missing = filter (\<lambda>(n, d). n \<notin> set (map fst given)) (sig_params sg @ sig_kwonly sg)
      in if length names < length args then Inl TypeError
         else if \<not> distinct (map fst given) then Inl TypeError
         else if \<not> sig_varkw sg \<and>
                 \<not> list_all (\<lambda>(n, v). n \<in> set names \<or> n \<in> set (map fst (sig_kwonly sg))) kwargs
           then Inl TypeError
         else if list_ex (\<lambda>(n, d). d = None) missing then Inl TypeError
         else Inr (given @ map (\<lambda>(n, d). (n, the d)) missing))"

text \<open>\<^verbatim>\<open>def forward(self, x, mask)\<close> of \<^verbatim>\<open>Attention\<close> and \<^verbatim>\<open>def forward(self, x)\<close> of
  \<^verbatim>\<open>FeedForward\<close>, called with bound arguments. An argument of a type that the calls
  of \<^verbatim>\<open>crate.py\<close> never pass in that place is outside the model, which answers
  \<^verbatim>\<open>TypeError\<close>.\<close>

definition Attention_forward_sig :: pysig where
  "Attention_forward_sig =
     \<lparr>sig_params = [(''x'', None), (''mask'', None)], sig_kwonly = [], sig_varkw = False\<rparr>"

definition Attention_call ::
  "Attention \<Rightarrow> (nat \<Rightarrow> nat \<Rightarrow> nat \<Rightarrow> nat \<Rightarrow> bool) \<Rightarrow> (nat \<Rightarrow> nat \<Rightarrow> nat \<Rightarrow> bool) \<Rightarrow> pyval list
     \<Rightarrow> (string \<times> pyval) list \<Rightarrow> pyerror + tensor3" where
  "Attention_call self keep keep_out args kwargs =
     (case bind_args Attention_forward_sig args kwargs of
        Inl e \<Rightarrow> Inl e
      | Inr env \<Rightarrow>
          (case (map_of env ''x'', map_of env ''mask'') of
             (Some (PyTensor x), Some PyNone) \<Rightarrow> Attention_forward self keep keep_out x None
           | (Some (PyTensor x), Some (PyMask m)) \<Rightarrow>
               Attention_forward self keep keep_out x (Some m)
           | _ \<Rightarrow> Inl TypeError))"

definition FeedForward_forward_sig :: pysig where
  "FeedForward_forward_sig = \<lparr>sig_params = [(''x'', None)], sig_kwonly = [], sig_varkw = False\<rparr>"

definition FeedForward_call ::
  "FeedForward \<Rightarrow> pyval list \<Rightarrow> (string \<times> pyval) list \<Rightarrow> pyerror + tensor3" where
  "FeedForward_call self args kwargs =
     (case bind_args FeedForward_forward_sig args kwargs of
        Inl e \<Rightarrow> Inl e
      | Inr env \<Rightarrow>
          (case map_of env ''x'' of
             Some (PyTensor x) \<Rightarrow> FeedForward_forward self x
           | _ \<Rightarrow> Inl TypeError))"

section \<open>The pre-normalisation wrapper\<close>

text \<open>\<^verbatim>\<open>PreNorm\<close> wraps an attention block or a feed-forward block. Its
  \<^verbatim>\<open>forward(self, x, mask=None, **kwargs)\<close> normalises \<open>x\<close> and calls the block with the
  mask as second positional argument when the mask is not \<^verbatim>\<open>None\<close>, and with the
  normalised \<open>x\<close> alone otherwise.\<close>

datatype module = AttentionM Attention | FeedForwardM FeedForward

record PreNorm =
  pn_norm :: LayerNorm
  pn_fn :: module

definition PreNorm_init :: "nat \<Rightarrow> module \<Rightarrow> PreNorm" where
  "PreNorm_init d fn = \<lparr>pn_norm = LayerNorm_init d, pn_fn = fn\<rparr>"

definition call_fn ::
  "module \<Rightarrow> (nat \<Rightarrow> nat \<Rightarrow> nat \<Rightarrow> nat \<Rightarrow> bool) \<Rightarrow> (nat \<Rightarrow> nat \<Rightarrow> nat \<Rightarrow> bool) \<Rightarrow> pyval list
     \<Rightarrow> (string \<times> pyval) list \<Rightarrow> pyerror + tensor3" where
  "call_fn fn keep keep_out args kwargs =
     (case fn of
        AttentionM a \<Rightarrow> Attention_call a keep keep_out args kwargs
      | FeedForwardM f \<Rightarrow> FeedForward_call f args kwargs)"

definition PreNorm_forward ::
  "PreNorm \<Rightarrow> (nat \<Rightarrow> nat \<Rightarrow> nat \<Rightarrow> nat \<Rightarrow> bool) \<Rightarrow> (nat \<Rightarrow> nat \<Rightarrow> nat \<Rightarrow> bool) \<Rightarrow> tensor3
     \<Rightarrow> bool list list option \<Rightarrow> (string \<times> pyval) list \<Rightarrow> pyerror + tensor3" where
  "PreNorm_forward self keep keep_out x msk kwargs =
     (case LayerNorm_forward (pn_norm self) x of
        Inl e \<Rightarrow> Inl e
      | Inr y \<Rightarrow>
          (case msk of
             Some m \<Rightarrow> call_fn (pn_fn self) keep keep_out [PyTensor y, PyMask m] kwargs
           | None \<Rightarrow> call_fn (pn_fn self) keep keep_out [PyTensor y] kwargs))"

section \<open>The embedding block and the transformer stack\<close>

text \<open>The initial values of all parameters of a model are one input \<open>rnd\<close>: the value
  drawn for the parameter of a name, in the layer of an index, at a position.\<close>

type_synonym draws = "string \<Rightarrow> nat \<Rightarrow> nat \<Rightarrow> nat \<Rightarrow> real"

text \<open>The draws of the dropout layers in one forward pass: of the embedding, and by
  index of the layer of the attention weights and of the output projection.\<close>

record fwd_draws =
  keep_emb :: "nat \<Rightarrow> nat \<Rightarrow> nat \<Rightarrow> bool"
  keep_attn :: "nat \<Rightarrow> nat \<Rightarrow> nat \<Rightarrow> nat \<Rightarrow> nat \<Rightarrow> bool"
  keep_out :: "nat \<Rightarrow> nat \<Rightarrow> nat \<Rightarrow> nat \<Rightarrow> bool"

record Embeddings =
  tok_embed :: mat
  pos_embed :: mat
  seg_embed :: mat
  emb_norm :: LayerNorm
  emb_drop :: Dropout

definition Embeddings_init :: "Config \<Rightarrow> draws \<Rightarrow> pyerror + Embeddings" where
  "Embeddings_init cfg rnd =
     (case Dropout_init (cfg_p_drop_hidden cfg) of
        Inl e \<Rightarrow> Inl e
      | Inr dr \<Rightarrow>
          Inr \<lparr>tok_embed = rand_mat (rnd ''tok_embed'' 0) (cfg_vocab_size cfg) (cfg_dim cfg),
               pos_embed = rand_mat (rnd ''pos_embed'' 0) (cfg_max_len cfg) (cfg_dim cfg),
               seg_embed = rand_mat (rnd ''seg_embed'' 0) (cfg_n_segments cfg) (cfg_dim cfg),
               emb_norm = LayerNorm_init (cfg_dim cfg),
               emb_drop = dr\<rparr>)"

text \<open>\<^verbatim>\<open>nn.Embedding\<close>: the rows of the table at the given indices; an index outside the
  table is an error.\<close>

definition embedding :: "mat \<Rightarrow> int list list \<Rightarrow> pyerror + tensor3" where
  "embedding table ids =
     (if list_all (list_all (\<lambda>i. 0 \<le> i \<and> i < int (length table))) ids
      then Inr (map (map (\<lambda>i. table ! nat i)) ids)
      else Inl IndexError)"

text \<open>The sum of two tensors of shapes \<open>(B, N, D)\<close> and \<open>(B', N', D)\<close>, with torch's
  broadcasting of the first two dimensions.\<close>

definition badd3 :: "tensor3 \<Rightarrow> tensor3 \<Rightarrow> pyerror + tensor3" where
  "badd3 a b =
     (case (bdim (length a) (length b), bdim (seq_len a) (seq_len b)) of
        (Some B', Some N') \<Rightarrow>
          Inr (map (\<lambda>i. map (\<lambda>j.
                 map2 (+) (a ! bidx (length a) i ! bidx (seq_len a) j)
                          (b ! bidx (length b) i ! bidx (seq_len b) j))
               [0..<N']) [0..<B'])
      | _ \<Rightarrow> Inl RuntimeError)"

definition Embeddings_forward ::
  "Embeddings \<Rightarrow> (nat \<Rightarrow> nat \<Rightarrow> nat \<Rightarrow> bool) \<Rightarrow> int list list \<Rightarrow> int list list
     \<Rightarrow> pyerror + tensor3" where
  "Embeddings_forward self keep x seg =
     (let pos = map (\<lambda>row. map int [0..<seq_len x]) x
      in case embedding (tok_embed self) x of
           Inl e \<Rightarrow> Inl e
         | Inr t \<Rightarrow>
        (case embedding (pos_embed self) pos of
           Inl e \<Rightarrow> Inl e
         | Inr p \<Rightarrow>
        (case badd3 t p of
           Inl e \<Rightarrow> Inl e
         | Inr tp \<Rightarrow>
        (case embedding (seg_embed self) seg of
           Inl e \<Rightarrow> Inl e
         | Inr s \<Rightarrow>
        (case badd3 tp s of
           Inl e \<Rightarrow> Inl e
         | Inr e \<Rightarrow>
        (case LayerNorm_forward (emb_norm self) e of
           Inl err \<Rightarrow> Inl err
         | Inr y \<Rightarrow> Inr (dropout3 (emb_drop self) keep y)))))))"

record Transformer =
  tr_embed :: Embeddings
  tr_layers :: "(PreNorm \<times> PreNorm) list"

text \<open>The loop of \<^verbatim>\<open>Transformer.__init__\<close> over \<^verbatim>\<open>range(depth)\<close>.\<close>

fun build_layers ::
  "nat \<Rightarrow> nat \<Rightarrow> nat \<Rightarrow> real \<Rightarrow> real \<Rightarrow> draws \<Rightarrow> nat list \<Rightarrow> pyerror + (PreNorm \<times> PreNorm) list"
  where
  "build_layers d heads dim_head dropout ista rnd [] = Inr []"
| "build_layers d heads dim_head dropout ista rnd (l # ls) =
     (case Attention_init d heads dim_head dropout (rnd ''qkv'' l) (rnd ''to_out'' l)
             (rnd ''to_out_bias'' l 0) of
        Inl e \<Rightarrow> Inl e
      | Inr a \<Rightarrow>
          (case build_layers d heads dim_head dropout ista rnd ls of
             Inl e \<Rightarrow> Inl e
           | Inr rest \<Rightarrow>
               Inr ((PreNorm_init d (AttentionM a),
                     PreNorm_init d (FeedForwardM (FeedForward_init d d dropout ista (rnd ''weight'' l))))
                    # rest)))"

text \<open>The body of \<^verbatim>\<open>Transformer.__init__(self, cfg, ista=0.1)\<close> for a configuration
  and a number.\<close>

definition Transformer_init :: "Config \<Rightarrow> real \<Rightarrow> draws \<Rightarrow> pyerror + Transformer" where
  "Transformer_init cfg ista rnd =
     (if cfg_n_heads cfg = 0 then Inl ZeroDivisionError
      else case Embeddings_init cfg rnd of
             Inl e \<Rightarrow> Inl e
           | Inr emb \<Rightarrow>
               (case build_layers (cfg_dim cfg) (cfg_n_heads cfg) (cfg_dim cfg div cfg_n_heads cfg)
                       (cfg_p_drop_attn cfg) ista rnd [0..<cfg_n_layers cfg] of
                  Inl e \<Rightarrow> Inl e
                | Inr ls \<Rightarrow> Inr \<lparr>tr_embed = emb, tr_layers = ls\<rparr>))"

definition Transformer_init_sig :: pysig where
  "Transformer_init_sig =
     \<lparr>sig_params = [(''cfg'', None), (''ista'', Some (PyFloat 0.1))], sig_kwonly = [],
      sig_varkw = False\<rparr>"

text \<open>The call \<^verbatim>\<open>Transformer(...)\<close>: the arguments are bound to \<open>cfg\<close> and \<open>ista\<close>;
  reading \<^verbatim>\<open>cfg.dim\<close> from a value that is not a configuration is an
  \<^verbatim>\<open>AttributeError\<close>. (An \<open>ista\<close> that is not a number is outside the model.)\<close>

definition Transformer_new ::
  "pyval list \<Rightarrow> (string \<times> pyval) list \<Rightarrow> draws \<Rightarrow> pyerror + Transformer" where
  "Transformer_new args kwargs rnd =
     (case bind_args Transformer_init_sig args kwargs of
        Inl e \<Rightarrow> Inl e
      | Inr env \<Rightarrow>
          (case map_of env ''cfg'' of
             Some (PyCfg cfg) \<Rightarrow>
               (case map_of env ''ista'' of
                  Some (PyFloat ista) \<Rightarrow> Transformer_init cfg ista rnd
                | Some (PyInt ista) \<Rightarrow> Transformer_init cfg (real_of_int ista) rnd
                | _ \<Rightarrow> Inl TypeError)
           | _ \<Rightarrow> Inl AttributeError))"

text \<open>The loop of \<^verbatim>\<open>Transformer.forward\<close> over \<^verbatim>\<open>self.layers\<close>, from the layer of
  index \<open>l\<close> on.\<close>

fun Transformer_layers ::
  "(PreNorm \<times> PreNorm) list \<Rightarrow> fwd_draws \<Rightarrow> nat \<Rightarrow> bool list list option \<Rightarrow> tensor3
     \<Rightarrow> pyerror + tensor3" where
  "Transformer_layers [] dr l msk x = Inr x"
| "Transformer_layers ((attn, ff) # rest) dr l msk x =
     (case PreNorm_forward attn (keep_attn dr l) (keep_out dr l) x msk [] of
        Inl e \<Rightarrow> Inl e
      | Inr a \<Rightarrow>
     (case badd3 a x of
        Inl e \<Rightarrow> Inl e
      | Inr grad_x \<Rightarrow>
     (case PreNorm_forward ff (keep_attn dr l) (keep_out dr l) grad_x None [] of
        Inl e \<Rightarrow> Inl e
      | Inr x' \<Rightarrow> Transformer_layers rest dr (Suc l) msk x')))"

definition Transformer_forward ::
  "Transformer \<Rightarrow> fwd_draws \<Rightarrow> int list list \<Rightarrow> int list list \<Rightarrow> bool list list option
     \<Rightarrow> pyerror + tensor3" where
  "Transformer_forward self dr x seg msk =
     (case Embeddings_forward (tr_embed self) (keep_emb dr) x seg of
        Inl e \<Rightarrow> Inl e
      | Inr e \<Rightarrow> Transformer_layers (tr_layers self) dr 0 msk e)"

definition Transformer_forward_sig :: pysig where
  "Transformer_forward_sig =
     \<lparr>sig_params = [(''x'', None), (''seg'', None), (''mask'', None)], sig_kwonly = [],
      sig_varkw = False\<rparr>"

definition Transformer_call ::
  "Transformer \<Rightarrow> fwd_draws \<Rightarrow> pyval list \<Rightarrow> (string \<times> pyval) list \<Rightarrow> pyerror + tensor3" where
  "Transformer_call self dr args kwargs =
     (case bind_args Transformer_forward_sig args kwargs of
        Inl e \<Rightarrow> Inl e
      | Inr env \<Rightarrow>
          (case (map_of env ''x'', map_of env ''seg'', map_of env ''mask'') of
             (Some (PyIds x), Some (PyIds seg), Some PyNone) \<Rightarrow>
               Transformer_forward self dr x seg None
           | (Some (PyIds x), Some (PyIds seg), Some (PyMask m)) \<Rightarrow>
               Transformer_forward self dr x seg (Some m)
           | _ \<Rightarrow> Inl TypeError))"

text \<open>The per-layer update as the specification words it: the residual
  \<open>PreNorm(Attention)(x, mask) + x\<close>, then \<open>PreNorm(FeedForward)\<close> of the residual, which
  replaces \<open>x\<close>. \<open>bindE\<close> passes a value on and keeps an error.\<close>

definition bindE :: "pyerror + 'a \<Rightarrow> ('a \<Rightarrow> pyerror + 'b) \<Rightarrow> pyerror + 'b" where
  "bindE m f = (case m of Inl e \<Rightarrow> Inl e | Inr v \<Rightarrow> f v)"

definition spec_layer ::
  "bool list list option \<Rightarrow> fwd_draws \<Rightarrow> nat \<times> PreNorm \<times> PreNorm \<Rightarrow> tensor3 \<Rightarrow> pyerror + tensor3"
  where
  "spec_layer msk dr = (\<lambda>(l, attn, ff) x.
     bindE (bindE (PreNorm_forward attn (keep_attn dr l) (keep_out dr l) x msk [])
                  (\<lambda>a. badd3 a x))
           (\<lambda>residual. PreNorm_forward ff (keep_attn dr l) (keep_out dr l) residual None []))"

section \<open>The classifier\<close>

text \<open>\<^verbatim>\<open>image_size\<close> and \<^verbatim>\<open>patch_size\<close> are an integer or a tuple of two.\<close>

datatype size_arg = Single nat | Tuple nat nat

definition pair :: "size_arg \<Rightarrow> nat \<times> nat" where
  "pair t = (case t of Tuple h w \<Rightarrow> (h, w) | Single s \<Rightarrow> (s, s))"

text \<open>The keyword arguments of \<^verbatim>\<open>CRATE.__init__\<close>.\<close>

record CRATE_args =
  arg_image_size :: size_arg
  arg_patch_size :: size_arg
  arg_num_classes :: nat
  arg_dim :: nat
  arg_depth :: nat
  arg_heads :: nat
  arg_pool :: string
  arg_channels :: nat
  arg_dim_head :: nat
  arg_dropout :: real
  arg_emb_dropout :: real
  arg_ista :: real

record CRATE =
  patch_height :: nat
  patch_width :: nat
  patch_norm :: LayerNorm
  patch_linear :: "mat \<times> vec"
  embed_norm :: LayerNorm
  pos_embedding :: mat
  cls_token :: vec
  crate_dropout :: Dropout
  transformer :: Transformer
  crate_pool :: string
  head_norm :: LayerNorm
  head_linear :: "mat \<times> vec"

text \<open>\<^verbatim>\<open>CRATE.__init__\<close>. The two \<^verbatim>\<open>assert\<close> statements, the division by a patch size
  of zero in the first of them, the dropout rate, and then the call
  \<^verbatim>\<open>Transformer(dim, depth, heads, dim_head, dropout, ista=ista)\<close> of line 152: five
  positional arguments and the keyword \<open>ista\<close>.\<close>

definition CRATE_init :: "CRATE_args \<Rightarrow> draws \<Rightarrow> pyerror + CRATE" where
  "CRATE_init a rnd =
     (case (pair (arg_image_size a), pair (arg_patch_size a)) of
        ((image_height, image_width), (patch_h, patch_w)) \<Rightarrow>
          if patch_h = 0 then Inl ZeroDivisionError
          else if image_height mod patch_h \<noteq> 0
            then Inl (AssertionError ''Image dimensions must be divisible by the patch size.'')
          else if patch_w = 0 then Inl ZeroDivisionError
          else if image_width mod patch_w \<noteq> 0
            then Inl (AssertionError ''Image dimensions must be divisible by the patch size.'')
          else
            let num_patches = (image_height div patch_h) * (image_width div patch_w);
                patch_dim = arg_channels a * patch_h * patch_w
            in if arg_pool a \<notin> {''cls'', ''mean''}
               then Inl (AssertionError
                      ''pool type must be either cls (cls token) or mean (mean pooling)'')
               else
                 (case Dropout_init (arg_emb_dropout a) of
                    Inl e \<Rightarrow> Inl e
                  | Inr dr \<Rightarrow>
                 (case Transformer_new
                         [PyInt (int (arg_dim a)), PyInt (int (arg_depth a)),
                          PyInt (int (arg_heads a)), PyInt (int (arg_dim_head a)),
                          PyFloat (arg_dropout a)]
                         [(''ista'', PyFloat (arg_ista a))] rnd of
                    Inl e \<Rightarrow> Inl e
                  | Inr tr \<Rightarrow>
                      Inr \<lparr>patch_height = patch_h, patch_width = patch_w,
                           patch_norm = LayerNorm_init patch_dim,
                           patch_linear = (rand_mat (rnd ''patch_weight'' 0) (arg_dim a) patch_dim,
                                           map (rnd ''patch_bias'' 0 0) [0..<arg_dim a]),
                           embed_norm = LayerNorm_init (arg_dim a),
                           pos_embedding = rand_mat (rnd ''pos_embedding'' 0) (num_patches + 1) (arg_dim a),
                           cls_token = map (rnd ''cls_token'' 0 0) [0..<arg_dim a],
                           crate_dropout = dr,
                           transformer = tr,
                           crate_pool = arg_pool a,
                           head_norm = LayerNorm_init (arg_dim a),
                           head_linear = (rand_mat (rnd ''head_weight'' 0) (arg_num_classes a) (arg_dim a),
                                          map (rnd ''head_bias'' 0 0) [0..<arg_num_classes a])\<rparr>)))"

text \<open>The presets; \<^verbatim>\<open>pool\<close>, \<^verbatim>\<open>channels\<close> and \<^verbatim>\<open>ista\<close> take their defaults.\<close>

definition CRATE_preset :: "nat \<Rightarrow> nat \<Rightarrow> nat \<Rightarrow> nat \<Rightarrow> CRATE_args" where
  "CRATE_preset num_classes d depth heads =
     \<lparr>arg_image_size = Single 224, arg_patch_size = Single 16, arg_num_classes = num_classes,
      arg_dim = d, arg_depth = depth, arg_heads = heads, arg_pool = ''cls'', arg_channels = 3,
      arg_dim_head = d div heads, arg_dropout = 0, arg_emb_dropout = 0, arg_ista = 0.1\<rparr>"

definition CRATE_tiny :: "nat \<Rightarrow> draws \<Rightarrow> pyerror + CRATE" where
  "CRATE_tiny num_classes rnd = CRATE_init (CRATE_preset num_classes 384 12 6) rnd"

definition CRATE_small :: "nat \<Rightarrow> draws \<Rightarrow> pyerror + CRATE" where
  "CRATE_small num_classes rnd = CRATE_init (CRATE_preset num_classes 576 12 12) rnd"

definition CRATE_base :: "nat \<Rightarrow> draws \<Rightarrow> pyerror + CRATE" where
  "CRATE_base num_classes rnd = CRATE_init (CRATE_preset num_classes 768 12 12) rnd"

definition CRATE_large :: "nat \<Rightarrow> draws \<Rightarrow> pyerror + CRATE" where
  "CRATE_large num_classes rnd = CRATE_init (CRATE_preset num_classes 1024 24 16) rnd"

section \<open>Example objects\<close>

text \<open>An attention block with one head of size one on inputs of size one, as
  \<open>Attention(1, heads = 1, dim_head = 1, dropout = rate)\<close> builds it when the weight drawn
  for \<^verbatim>\<open>qkv\<close> is one; dropout draws that keep every entry.\<close>

definition example_attention :: "real \<Rightarrow> Attention" where
  "example_attention rate =
     \<lparr>att_dim = 1, att_heads = 1, att_dim_head = 1, att_scale = 1,
      att_dropout = \<lparr>drop_p = rate, drop_training = True\<rparr>,
      att_qkv = [[1]], att_to_out = None\<rparr>"

definition draw_one :: "nat \<Rightarrow> nat \<Rightarrow> real" where
  "draw_one i j = 1"

definition draw_zero :: "nat \<Rightarrow> real" where
  "draw_zero i = 0"

definition keep_all4 :: "nat \<Rightarrow> nat \<Rightarrow> nat \<Rightarrow> nat \<Rightarrow> bool" where
  "keep_all4 b h i j = True"

definition keep_all3 :: "nat \<Rightarrow> nat \<Rightarrow> nat \<Rightarrow> bool" where
  "keep_all3 b i j = True"

definition example_draws :: draws where
  "example_draws name l i j = 1"

section \<open>The corpus script\<close>

text \<open>A Python \<^verbatim>\<open>str\<close> is the list of its code points. \<open>findall p s\<close> is
  \<^verbatim>\<open>re.findall(p, s)\<close> for a pattern \<open>p\<close> of literal characters: the scan goes from left
  to right, a match is taken where it is found and the scan goes on behind it, so the
  matches do not overlap. (The empty pattern matches once at every position.)\<close>

type_synonym str = "nat list"

function findall :: "'a list \<Rightarrow> 'a list \<Rightarrow> 'a list list" where
  "findall p s =
     (if p = [] then replicate (Suc (length s)) []
      else if s = [] then []
      else if take (length p) s = p then p # findall p (drop (length p) s)
      else findall p (tl s))"
  by pat_completeness auto
termination
  by (relation "measure (\<lambda>(p, s). length s)") auto

declare findall.simps [simp del]

text \<open>The pattern \<^verbatim>\<open>" = "\<close> and the string \<^verbatim>\<open>"\n"\<close>.\<close>

definition sep :: str where
  "sep = [32, 61, 32]"

definition newline :: str where
  "newline = [10]"

text \<open>The body of the loop: what \<^verbatim>\<open>file.write\<close> receives for the line \<open>i\<close>.\<close>

definition filter_line :: "str \<Rightarrow> str" where
  "filter_line i = (if length (findall sep i) > 1 then newline else i)"

text \<open>The loop over \<^verbatim>\<open>wiki["text"]\<close>; the state is what has been written to the file,
  which \<^verbatim>\<open>open(..., "w")\<close> starts empty.\<close>

fun write_all :: "str list \<Rightarrow> str \<Rightarrow> str" where
  "write_all [] out = out"
| "write_all (i # rest) out = write_all rest (out @ filter_line i)"

definition corpus_script :: "str list \<Rightarrow> str" where
  "corpus_script wiki_text = write_all wiki_text []"

text \<open>The specification's reading: a line holds two occurrences of the separator that do
  not overlap.\<close>

definition occurs_twice :: "'a list \<Rightarrow> 'a list \<Rightarrow> bool" where
  "occurs_twice p s = (\<exists>a b c. s = a @ p @ b @ p @ c)"

section \<open>Properties of the corpus script\<close>

lemma findall_step:
  "p \<noteq> [] \<Longrightarrow> s \<noteq> [] \<Longrightarrow> findall p s =
     (if take (length p) s = p then p # findall p (drop (length p) s) else findall p (tl s))"
  by (subst findall.simps) simp

lemma findall_Nil [simp]: "p \<noteq> [] \<Longrightarrow> findall p [] = []"
  by (subst findall.simps) simp

lemma findall_ge1:
  "p \<noteq> [] \<Longrightarrow> s = a @ p @ c \<Longrightarrow> 1 \<le> length (findall p s)"
proof (induction "length s" arbitrary: s a rule: less_induct)
  case less
  have ne: "s \<noteq> []" using less.prems by simp
  show ?case
  proof (cases "take (length p) s = p")
    case True
    then show ?thesis using less.prems(1) ne by (simp add: findall_step)
  next
    case False
    with less.prems have "a \<noteq> []" by auto
    then obtain x a' where a: "a = x # a'" by (cases a) auto
    have "1 \<le> length (findall p (tl s))"
      by (rule less.hyps[of "tl s" a']) (use less.prems a in auto)
    then show ?thesis using less.prems(1) ne False by (simp add: findall_step)
  qed
qed

lemma findall_ge1_conv:
  "p \<noteq> [] \<Longrightarrow> 1 \<le> length (findall p s) \<Longrightarrow> \<exists>a c. s = a @ p @ c"
proof (induction "length s" arbitrary: s rule: less_induct)
  case less
  have ne: "s \<noteq> []" using less.prems by (cases s) auto
  show ?case
  proof (cases "take (length p) s = p")
    case True
    then have "s = [] @ p @ drop (length p) s" by (metis append_Nil append_take_drop_id)
    then show ?thesis by blast
  next
    case False
    with less.prems ne have "1 \<le> length (findall p (tl s))"
      by (simp add: findall_step)
    with less.hyps[of "tl s"] less.prems(1) ne obtain a c where "tl s = a @ p @ c"
      by (cases s) auto
    then have "s = (hd s # a) @ p @ c" using ne by (cases s) auto
    then show ?thesis by blast
  qed
qed

lemma findall_ge2:
  "p \<noteq> [] \<Longrightarrow> s = a @ p @ b @ p @ c \<Longrightarrow> 2 \<le> length (findall p s)"
proof (induction "length s" arbitrary: s a rule: less_induct)
  case less
  have ne: "s \<noteq> []" using less.prems by simp
  show ?case
  proof (cases "take (length p) s = p")
    case True
    have "drop (length p) s = drop (length p) (a @ p @ b) @ p @ c"
      using less.prems(2) by simp
    then have "1 \<le> length (findall p (drop (length p) s))"
      using findall_ge1[OF less.prems(1)] by blast
    then show ?thesis using True less.prems(1) ne by (simp add: findall_step)
  next
    case False
    with less.prems have "a \<noteq> []" by auto
    then obtain x a' where a: "a = x # a'" by (cases a) auto
    have "2 \<le> length (findall p (tl s))"
      by (rule less.hyps[of "tl s" a']) (use less.prems a in auto)
    then show ?thesis using less.prems(1) ne False by (simp add: findall_step)
  qed
qed

lemma findall_ge2_conv:
  "p \<noteq> [] \<Longrightarrow> 2 \<le> length (findall p s) \<Longrightarrow> \<exists>a b c. s = a @ p @ b @ p @ c"
proof (induction "length s" arbitrary: s rule: less_induct)
  case less
  have ne: "s \<noteq> []" using less.prems by (cases s) auto
  show ?case
  proof (cases "take (length p) s = p")
    case True
    with less.prems ne have "1 \<le> length (findall p (drop (length p) s))"
      by (simp add: findall_step)
    from findall_ge1_conv[OF less.prems(1) this]
    obtain b c where "drop (length p) s = b @ p @ c" by blast
    with True have "s = [] @ p @ b @ p @ c" by (metis append_Nil append_take_drop_id)
    then show ?thesis by blast
  next
    case False
    with less.prems ne have "2 \<le> length (findall p (tl s))"
      by (simp add: findall_step)
    with less.hyps[of "tl s"] less.prems(1) ne obtain a b c where "tl s = a @ p @ b @ p @ c"
      by (cases s) auto
    then have "s = (hd s # a) @ p @ b @ p @ c" using ne by (cases s) auto
    then show ?thesis by blast
  qed
qed

lemma findall_twice_iff:
  "p \<noteq> [] \<Longrightarrow> (1 < length (findall p s)) = occurs_twice p s"
  unfolding occurs_twice_def
  using findall_ge2[of p s] findall_ge2_conv[of p s] by fastforce

lemma write_all_concat: "write_all ls out = out @ concat (map filter_line ls)"
  by (induction ls arbitrary: out) auto

text \<open>
  C7. The script writes, for the lines of the corpus in their order, a single newline
  character for each line that holds two or more occurrences of \<^verbatim>\<open>" = "\<close> that do not
  overlap, and the line itself for every other line.
\<close>

theorem corpus_script_filters:
  "corpus_script ls = concat (map (\<lambda>l. if occurs_twice sep l then newline else l) ls)"
proof -
  have "filter_line l = (if occurs_twice sep l then newline else l)" for l
    using findall_twice_iff[of sep l] by (simp add: filter_line_def sep_def)
  then have "filter_line = (\<lambda>l. if occurs_twice sep l then newline else l)"
    by (rule ext)
  then show ?thesis
    by (simp add: corpus_script_def write_all_concat)
qed

section \<open>Properties of the feed-forward block\<close>

lemma dot_nth:
  "length u = length v \<Longrightarrow> dot u v = (\<Sum>k\<leftarrow>[0..<length u]. u ! k * v ! k)"
proof -
  assume len: "length u = length v"
  have "map2 (*) u v = map (\<lambda>k. u ! k * v ! k) [0..<length u]"
    using len by (intro nth_equalityI) auto
  then show ?thesis by (simp add: dot_def)
qed

lemma is_mat_nth: "is_mat r c m \<Longrightarrow> i < r \<Longrightarrow> length (m ! i) = c"
  by (auto simp: is_mat_def list_all_length)

lemma is_mat_length: "is_mat r c m \<Longrightarrow> length m = r"
  by (simp add: is_mat_def)

lemma mat_t_is_mat: "is_mat c (length W) (mat_t c W)"
  by (simp add: is_mat_def mat_t_def list_all_length)

lemma mat_t_nth: "k < c \<Longrightarrow> j < length W \<Longrightarrow> mat_t c W ! k ! j = W ! j ! k"
  by (simp add: mat_t_def)

text \<open>\<^verbatim>\<open>F.linear(x, W)\<close> is \<open>x \<cdot> W\<^sup>T\<close>.\<close>

lemma linear_row_weight:
  assumes W: "is_mat r d W" and v: "length v = d"
  shows "map (\<lambda>w. dot v w) W = map (\<lambda>j. \<Sum>k\<leftarrow>[0..<length v]. v ! k * mat_t d W ! k ! j) [0..<r]"
proof (intro nth_equalityI)
  show "length (map (dot v) W) = length (map (\<lambda>j. \<Sum>k\<leftarrow>[0..<length v]. v ! k * mat_t d W ! k ! j) [0..<r])"
    using W by (simp add: is_mat_def)
next
  fix i assume "i < length (map (dot v) W)"
  then have i: "i < r" using W by (simp add: is_mat_def)
  have "dot v (W ! i) = (\<Sum>k\<leftarrow>[0..<length v]. v ! k * W ! i ! k)"
    using is_mat_nth[OF W i] v by (simp add: dot_nth)
  also have "\<dots> = (\<Sum>k\<leftarrow>[0..<length v]. v ! k * mat_t d W ! k ! i)"
    using i v W by (intro arg_cong[where f=sum_list] map_cong) (auto simp: mat_t_nth is_mat_def)
  finally show "map (dot v) W ! i = map (\<lambda>j. \<Sum>k\<leftarrow>[0..<length v]. v ! k * mat_t d W ! k ! j) [0..<r] ! i"
    using i W by (simp add: is_mat_def)
qed

text \<open>\<^verbatim>\<open>F.linear(x, W.t())\<close> is \<open>x \<cdot> W\<close>.\<close>

lemma linear_row_weight_t:
  assumes W: "is_mat d c W" and v: "length v = d"
  shows "map (\<lambda>w. dot v w) (mat_t c W) = map (\<lambda>j. \<Sum>k\<leftarrow>[0..<length v]. v ! k * W ! k ! j) [0..<c]"
proof (intro nth_equalityI)
  show "length (map (dot v) (mat_t c W)) = length (map (\<lambda>j. \<Sum>k\<leftarrow>[0..<length v]. v ! k * W ! k ! j) [0..<c])"
    by (simp add: mat_t_def)
next
  fix i assume "i < length (map (dot v) (mat_t c W))"
  then have i: "i < c" by (simp add: mat_t_def)
  have len: "length (mat_t c W ! i) = length v"
    using i v W by (simp add: mat_t_def is_mat_def)
  have "dot v (mat_t c W ! i) = (\<Sum>k\<leftarrow>[0..<length v]. v ! k * mat_t c W ! i ! k)"
    using len by (simp add: dot_nth)
  also have "\<dots> = (\<Sum>k\<leftarrow>[0..<length v]. v ! k * W ! k ! i)"
    using i v W by (intro arg_cong[where f=sum_list] map_cong) (auto simp: mat_t_nth is_mat_def)
  finally show "map (dot v) (mat_t c W) ! i = map (\<lambda>j. \<Sum>k\<leftarrow>[0..<length v]. v ! k * W ! k ! j) [0..<c] ! i"
    using i by (simp add: mat_t_def)
qed

lemma linear_weight:
  assumes W: "is_mat r d W" and x: "is_tensor3 b n d x"
  shows "linear d W x = Inr (map (\<lambda>m. matmul r m (mat_t d W)) x)"
proof -
  have ok: "list_all (list_all (\<lambda>v. length v = d)) x"
    using x by (auto simp: is_tensor3_def is_mat_def list_all_iff)
  have "map (map (\<lambda>v. map (\<lambda>w. dot v w) W)) x = map (\<lambda>m. matmul r m (mat_t d W)) x"
    unfolding matmul_def
    using x linear_row_weight[OF W]
    by (intro map_cong refl) (auto simp: is_tensor3_def is_mat_def list_all_iff)
  with ok show ?thesis by (simp add: linear_def)
qed

lemma linear_weight_t:
  assumes W: "is_mat d c W" and x: "is_tensor3 b n d x"
  shows "linear d (mat_t c W) x = Inr (map (\<lambda>m. matmul c m W) x)"
proof -
  have ok: "list_all (list_all (\<lambda>v. length v = d)) x"
    using x by (auto simp: is_tensor3_def is_mat_def list_all_iff)
  have "map (map (\<lambda>v. map (\<lambda>w. dot v w) (mat_t c W))) x = map (\<lambda>m. matmul c m W) x"
    unfolding matmul_def
    using x linear_row_weight_t[OF W]
    by (intro map_cong refl) (auto simp: is_tensor3_def is_mat_def list_all_iff)
  with ok show ?thesis by (simp add: linear_def)
qed

lemma matmul_is_mat: "is_mat n k A \<Longrightarrow> is_mat n m (matmul m A B)"
  by (simp add: is_mat_def matmul_def list_all_length)

lemma matmul_tensor3:
  "is_tensor3 b n k x \<Longrightarrow> is_tensor3 b n m (map (\<lambda>A. matmul m A B) x)"
  by (auto simp: is_tensor3_def list_all_iff intro: matmul_is_mat)


lemma map_map2_fuse: "map f (map2 g xs ys) = map2 (\<lambda>a b. f (g a b)) xs ys"
  by (simp add: split_def)

lemma mapmap_map2_fuse:
  "map (map f) (map2 (map2 g) A B) = map2 (map2 (\<lambda>a b. f (g a b))) A B"
  by (simp add: split_def)

lemma map3_zip3_fuse: "map3 f (zip3 g x y) = zip3 (\<lambda>a b. f (g a b)) x y"
  by (simp add: map3_def zip3_def split_def)

lemma map3_map3: "map3 f (map3 g x) = map3 (\<lambda>a. f (g a)) x"
  by (simp add: map3_def comp_def)

lemma map3_map: "map3 f (map h x) = map (\<lambda>m. map (map f) (h m)) x"
  by (simp add: map3_def comp_def)

lemma zip3_same:
  "zip3 f (map g x) (map h x) = map (\<lambda>m. map2 (map2 f) (g m) (h m)) x"
  by (simp add: zip3_def zip_map_map zip_same_conv_map comp_def)

lemma zip3_left:
  "zip3 f x (map h x) = map (\<lambda>m. map2 (map2 f) m (h m)) x"
  using zip3_same[of f "\<lambda>m. m" x h] by simp

lemma FeedForward_forward_eq:
  assumes D: "is_mat d d D" and x: "is_tensor3 b n d x"
    and ff: "ff_dim self = d" "weight self = D"
  shows "FeedForward_forward self x =
     Inr (map (spec_feed_forward d (step_size self) (lambd self) D) x)"
proof -
  let ?x1 = "map (\<lambda>m. matmul d m (mat_t d D)) x"
  have x1: "linear d D x = Inr ?x1"
    by (rule linear_weight[OF D x])
  have sx1: "is_tensor3 b n d ?x1"
    by (rule matmul_tensor3[OF x])
  have g1: "linear d (mat_t d D) ?x1 = Inr (map (\<lambda>m. matmul d (matmul d m (mat_t d D)) D) x)"
    using linear_weight_t[OF D sx1] by (simp add: comp_def)
  have g2: "linear d (mat_t d D) x = Inr (map (\<lambda>m. matmul d m D) x)"
    by (rule linear_weight_t[OF D x])
  let ?g1 = "\<lambda>m. matmul d (matmul d m (mat_t d D)) D"
  let ?g2 = "\<lambda>m. matmul d m D"
  let ?s = "step_size self" and ?l = "lambd self"
  let ?upd = "\<lambda>m. map2 (map2 (\<lambda>a b. ?s * (a - b) - ?s * ?l)) (?g2 m) (?g1 m)"
  have upd: "map3 (\<lambda>v. v - ?s * ?l) (map3 (\<lambda>v. ?s * v) (zip3 (-) (map ?g2 x) (map ?g1 x)))
      = map ?upd x"
    by (simp only: map3_map3 zip3_same map3_map mapmap_map2_fuse)
  have out: "map3 relu (zip3 (+) x (map ?upd x))
      = map (\<lambda>m. map2 (map2 (\<lambda>a u. relu (a + u))) m (?upd m)) x"
    by (simp only: zip3_left map3_map mapmap_map2_fuse)
  have "FeedForward_forward self x =
      Inr (map (\<lambda>m. map2 (map2 (\<lambda>a u. relu (a + u))) m (?upd m)) x)"
    unfolding FeedForward_forward_def ff
    by (simp only: x1 g1 g2 sum.case Let_def upd out)
  also have "\<dots> = Inr (map (spec_feed_forward d ?s ?l D) x)"
    by (simp add: spec_feed_forward_def Let_def)
  finally show ?thesis .
qed


lemma rand_mat_is_mat: "is_mat r c (rand_mat g r c)"
  by (simp add: is_mat_def rand_mat_def list_all_length)

lemma FeedForward_init_weight: "is_mat d d (weight (FeedForward_init d h p s g))"
  by (simp add: FeedForward_init_def rand_mat_is_mat)

text \<open>
  C3. For every dictionary \<open>D\<close> of shape \<open>(dim, dim)\<close>, every input of shape
  \<open>(B, N, dim)\<close> and every step size \<open>s\<close>, the forward pass of a constructed block
  returns, for each element of the batch, \<open>ReLU(x + (s \<cdot> (grad_2 - grad_1) - s \<cdot> \<lambda>))\<close>
  with \<open>x1 = x \<cdot> D\<^sup>T\<close>, \<open>grad_1 = x1 \<cdot> D\<close>, \<open>grad_2 = x \<cdot> D\<close> and \<open>\<lambda> = 0.1\<close>.
\<close>

theorem FeedForward_forward_spec:
  "is_mat d d D \<Longrightarrow> is_tensor3 b n d x \<Longrightarrow>
   FeedForward_forward ((FeedForward_init d hidden_dim dropout s g)\<lparr>weight := D\<rparr>) x =
     Inr (map (spec_feed_forward d s 0.1 D) x)"
  using FeedForward_forward_eq[of d D b n x "(FeedForward_init d hidden_dim dropout s g)\<lparr>weight := D\<rparr>"]
  by (simp add: FeedForward_init_def)


theorem FeedForward_forward_spec_witness:
  "is_mat 2 2 [[1, 2], [3, 4::real]] \<and> is_tensor3 1 1 2 [[[1, -1]]] \<and>
   FeedForward_forward ((FeedForward_init 2 2 0 (1/2) (\<lambda>i j. 0))\<lparr>weight := [[1, 2], [3, 4]]\<rparr>)
     [[[1, -1]]] = Inr [[[39/20, 19/20]]]"
  using FeedForward_forward_spec[of 2 "[[1, 2], [3, 4]]" 1 1 "[[[1, -1]]]" 2 0 "1/2" "\<lambda>i j. 0"]
  by (simp add: is_mat_def is_tensor3_def spec_feed_forward_def matmul_def mat_t_def relu_def
      upt_rec numeral_2_eq_2)

lemma matmul_zero:
  assumes "is_mat n d A"
  shows "matmul d A (replicate d (replicate d 0)) = replicate n (replicate d 0)"
proof -
  have row: "map (\<lambda>j. \<Sum>k\<leftarrow>[0..<length r]. r ! k * replicate d (replicate d (0::real)) ! k ! j) [0..<d]
      = replicate d 0" if "length r = d" for r :: vec
  proof (intro nth_equalityI)
    fix j assume "j < length (map (\<lambda>j. \<Sum>k\<leftarrow>[0..<length r]. r ! k * replicate d (replicate d (0::real)) ! k ! j) [0..<d])"
    then have j: "j < d" by simp
    have "(\<Sum>k\<leftarrow>[0..<length r]. r ! k * replicate d (replicate d (0::real)) ! k ! j) = (\<Sum>k\<leftarrow>[0..<length r]. 0)"
      using that j by (intro arg_cong[where f=sum_list] map_cong) auto
    then show "map (\<lambda>j. \<Sum>k\<leftarrow>[0..<length r]. r ! k * replicate d (replicate d (0::real)) ! k ! j) [0..<d] ! j
        = replicate d 0 ! j"
      using j by simp
  qed simp
  have "matmul d A (replicate d (replicate d 0)) = map (\<lambda>r. replicate d 0) A"
    unfolding matmul_def using assms row
    by (intro map_cong refl) (auto simp: is_mat_def list_all_iff)
  then show ?thesis using assms by (simp add: is_mat_def map_replicate_const)
qed

lemma map2_replicate_const:
  "is_mat n d m \<Longrightarrow> map2 (map2 f) m (replicate n (replicate d c)) = map (map (\<lambda>a. f a c)) m"
  by (intro nth_equalityI) (auto simp: is_mat_def list_all_length)

lemma spec_feed_forward_zero:
  assumes m: "is_mat n d m"
  shows "spec_feed_forward d s l (replicate d (replicate d 0)) m = map (map (\<lambda>v. relu (v - s * l))) m"
proof -
  let ?Z = "replicate d (replicate d (0::real))"
  have g2: "matmul d m ?Z = replicate n (replicate d 0)"
    by (rule matmul_zero[OF m])
  have g1: "matmul d (matmul d m (mat_t d ?Z)) ?Z = replicate n (replicate d 0)"
    by (rule matmul_zero[OF matmul_is_mat[OF m]])
  have upd: "map2 (map2 (\<lambda>g2 g1. s * (g2 - g1) - s * l))
        (replicate n (replicate d 0)) (replicate n (replicate d 0)) = replicate n (replicate d (- (s * l)))"
    by (intro nth_equalityI) auto
  show ?thesis
    by (simp add: spec_feed_forward_def Let_def g1 g2 upd map2_replicate_const[OF m])
qed

text \<open>
  C8. With the zero matrix as dictionary, the forward pass returns \<open>ReLU(x - s \<cdot> \<lambda>)\<close>
  with \<open>\<lambda> = 0.1\<close>, entry by entry, for every input of shape \<open>(B, N, dim)\<close>.
\<close>

theorem FeedForward_zero_dictionary:
  "is_tensor3 b n d x \<Longrightarrow>
   FeedForward_forward
     ((FeedForward_init d hidden_dim dropout s g)\<lparr>weight := replicate d (replicate d 0)\<rparr>) x =
     Inr (map3 (\<lambda>v. relu (v - s * 0.1)) x)"
proof -
  assume x: "is_tensor3 b n d x"
  have Z: "is_mat d d (replicate d (replicate d (0::real)))"
    by (simp add: is_mat_def list_all_length)
  have "map (spec_feed_forward d s 0.1 (replicate d (replicate d 0))) x =
      map (map (map (\<lambda>v. relu (v - s * 0.1)))) x"
    using x by (intro map_cong refl spec_feed_forward_zero[of n]) (auto simp: is_tensor3_def list_all_iff)
  then show ?thesis
    using FeedForward_forward_eq[OF Z x, of "(FeedForward_init d hidden_dim dropout s g)\<lparr>weight := replicate d (replicate d 0)\<rparr>"]
    by (simp add: FeedForward_init_def map3_def)
qed

theorem FeedForward_zero_dictionary_witness:
  "is_tensor3 1 2 2 [[[1, -1], [0, 1/2]]] \<and>
   FeedForward_forward
     ((FeedForward_init 2 2 0 (1/2) (\<lambda>i j. 1))\<lparr>weight := replicate 2 (replicate 2 0)\<rparr>)
     [[[1, -1], [0, 1/2]]] = Inr [[[19/20, 0], [0, 9/20]]]"
  using FeedForward_zero_dictionary[of 1 2 2 "[[[1, -1], [0, 1/2]]]" 2 0 "1/2" "\<lambda>i j. 1"]
  by (simp add: is_mat_def is_tensor3_def map3_def relu_def)

text \<open>
  C9. Two blocks constructed with the same \<open>dim\<close>, \<open>hidden_dim\<close> and step size and
  holding the same dictionary return the same result on every input, whatever their
  \<open>dropout\<close> arguments (and whatever their initial weights were).
\<close>

theorem FeedForward_ignores_dropout:
  "FeedForward_forward ((FeedForward_init d hidden_dim dropout1 s g1)\<lparr>weight := D\<rparr>) x =
   FeedForward_forward ((FeedForward_init d hidden_dim dropout2 s g2)\<lparr>weight := D\<rparr>) x"
  by (simp add: FeedForward_init_def)

section \<open>Properties of the attention block\<close>

lemma matmul_nth:
  "i < length A \<Longrightarrow> j < m \<Longrightarrow>
   matmul m A B ! i ! j = (\<Sum>k\<leftarrow>[0..<length (A ! i)]. A ! i ! k * B ! k ! j)"
  by (simp add: matmul_def)

lemma gram_symmetric:
  assumes len: "\<And>i. i < length m \<Longrightarrow> length (m ! i) = l" and l: "l \<le> d"
    and i: "i < length m" and j: "j < length m"
  shows "matmul (length m) m (mat_t d m) ! i ! j = matmul (length m) m (mat_t d m) ! j ! i"
proof -
  have "matmul (length m) m (mat_t d m) ! i ! j = (\<Sum>k\<leftarrow>[0..<l]. m ! i ! k * m ! j ! k)"
    if "i < length m" "j < length m" for i j
  proof -
    have "(\<Sum>k\<leftarrow>[0..<l]. m ! i ! k * mat_t d m ! k ! j) = (\<Sum>k\<leftarrow>[0..<l]. m ! i ! k * m ! j ! k)"
      using that l by (intro arg_cong[where f=sum_list] map_cong) (auto simp: mat_t_nth)
    then show ?thesis using that len[of i] by (simp add: matmul_nth)
  qed
  from this[OF i j] this[OF j i] show ?thesis
    by (simp add: mult.commute)
qed

lemma linear_Inr:
  "linear n W x = Inr y \<Longrightarrow> y = map (map (\<lambda>v. map (\<lambda>w. dot v w) W)) x"
  by (auto simp: linear_def split: if_splits)

lemma Attention_w_Inr:
  assumes "Attention_w self x = Inr w"
  shows "w = split_heads (att_heads self) (att_dim_head self)
           (map (map (\<lambda>v. map (\<lambda>w. dot v w) (att_qkv self))) x)"
  using assms by (auto simp: Attention_w_def split: sum.splits if_splits dest: linear_Inr)

lemma split_heads_row_length:
  assumes "w = split_heads H d (map (map (\<lambda>v. map (\<lambda>w. dot v w) W)) x)"
    and "b < length w" "h < length (w ! b)" "i < length (w ! b ! h)"
  shows "length (w ! b ! h ! i) = min d (length W - h * d)"
  using assms by (simp add: split_heads_def)

text \<open>
  C10. The scores before the softmax are symmetric: whenever the attention block
  computes \<open>dots\<close> for an input, \<open>dots[b, h, i, j] = dots[b, h, j, i]\<close> for every batch index,
  head and pair of positions.
\<close>

theorem Attention_dots_symmetric:
  assumes "Attention_dots self x = Inr dots"
    and "b < length dots" and "h < length (dots ! b)"
    and "i < length (dots ! b ! h)" and "j < length (dots ! b ! h)"
  shows "dots ! b ! h ! i ! j = dots ! b ! h ! j ! i"
proof -
  from assms(1) obtain w where w: "Attention_w self x = Inr w"
    and dots: "dots = dots_of (att_dim_head self) (att_scale self) w"
    by (auto simp: Attention_dots_def split: sum.splits)
  let ?d = "att_dim_head self"
  have b: "b < length w" using assms(2) by (simp add: dots dots_of_def)
  have h: "h < length (w ! b)" using assms(3) b by (simp add: dots dots_of_def)
  let ?m = "w ! b ! h"
  have n: "length (dots ! b ! h) = length ?m"
    using b h by (simp add: dots dots_of_def matmul_def)
  have i: "i < length ?m" and j: "j < length ?m" using assms(4,5) n by simp_all
  have len: "length (?m ! k) = min ?d (length (att_qkv self) - h * ?d)" if "k < length ?m" for k
    by (rule split_heads_row_length[OF Attention_w_Inr[OF w] b h that])
  have sym: "matmul (length ?m) ?m (mat_t ?d ?m) ! i ! j = matmul (length ?m) ?m (mat_t ?d ?m) ! j ! i"
    by (rule gram_symmetric[OF len _ i j]) simp_all
  have entry: "dots ! b ! h ! i' ! j' = matmul (length ?m) ?m (mat_t ?d ?m) ! i' ! j' * att_scale self"
    if "i' < length ?m" "j' < length ?m" for i' j'
    using b h that by (simp add: dots dots_of_def matmul_def)
  show ?thesis by (simp add: entry[OF i j] entry[OF j i] sym)
qed


lemma softmax_length [simp]: "length (softmax v) = length v"
  by (simp add: softmax_def)

lemma dropout4_lengths:
  "length (dropout4 dr keep t) = length t"
  "b < length t \<Longrightarrow> length (dropout4 dr keep t ! b) = length (t ! b)"
  "b < length t \<Longrightarrow> h < length (t ! b) \<Longrightarrow>
     length (dropout4 dr keep t ! b ! h) = length (t ! b ! h)"
  "b < length t \<Longrightarrow> h < length (t ! b) \<Longrightarrow> i < length (t ! b ! h) \<Longrightarrow>
     length (dropout4 dr keep t ! b ! h ! i) = length (t ! b ! h ! i)"
  by (simp_all add: dropout4_def)

lemma bidx_id: "i < n \<Longrightarrow> bidx n i = i"
  by (simp add: bidx_def)

lemma bdim_same [simp]: "bdim a a = Some a"
  by (simp add: bdim_def)

lemma is_tensor3_nth: "is_tensor3 B N d x \<Longrightarrow> b < B \<Longrightarrow> is_mat N d (x ! b)"
  by (auto simp: is_tensor3_def list_all_length)

lemma seq_len_is_mat: "is_mat B N m \<Longrightarrow> 0 < B \<Longrightarrow> seq_len m = N"
  by (cases m) (auto simp: seq_len_def is_mat_def)

lemma seq_len_tensor3: "is_tensor3 B N d x \<Longrightarrow> 0 < B \<Longrightarrow> seq_len x = N"
  by (cases x) (auto simp: seq_len_def is_tensor3_def is_mat_def)

lemma Attention_dots_shape:
  assumes x: "is_tensor3 B N (att_dim self) x" and H: "att_heads self \<noteq> 0"
  obtains dots where "Attention_dots self x = Inr dots" "length dots = B"
    "\<And>b. b < B \<Longrightarrow> length (dots ! b) = att_heads self"
    "\<And>b h. b < B \<Longrightarrow> h < att_heads self \<Longrightarrow> length (dots ! b ! h) = N"
    "\<And>b h i. b < B \<Longrightarrow> h < att_heads self \<Longrightarrow> i < N \<Longrightarrow> length (dots ! b ! h ! i) = N"
proof -
  let ?y = "map (map (\<lambda>v. map (\<lambda>w. dot v w) (att_qkv self))) x"
  let ?w = "split_heads (att_heads self) (att_dim_head self) ?y"
  let ?dots = "dots_of (att_dim_head self) (att_scale self) ?w"
  have ok: "list_all (list_all (\<lambda>v. length v = att_dim self)) x"
    using x by (auto simp: is_tensor3_def is_mat_def list_all_iff)
  then have w: "Attention_w self x = Inr ?w"
    using H by (simp add: Attention_w_def linear_def)
  then have d: "Attention_dots self x = Inr ?dots"
    by (simp add: Attention_dots_def)
  have B: "length x = B" using x by (simp add: is_tensor3_def)
  have N: "length (x ! b) = N" if "b < B" for b
    using is_tensor3_nth[OF x that] by (simp add: is_mat_def)
  show ?thesis
  proof (rule that[OF d])
    show "length ?dots = B" by (simp add: dots_of_def split_heads_def B)
    show "length (?dots ! b) = att_heads self" if "b < B" for b
      using that by (simp add: dots_of_def split_heads_def B)
    show "length (?dots ! b ! h) = N" if "b < B" "h < att_heads self" for b h
      using that N[of b] by (simp add: dots_of_def split_heads_def B matmul_def)
    show "length (?dots ! b ! h ! i) = N" if "b < B" "h < att_heads self" "i < N" for b h i
      using that N[of b] by (simp add: dots_of_def split_heads_def B matmul_def)
  qed
qed


lemma Attention_attn_masked:
  assumes x: "is_tensor3 B N (att_dim self) x" and m: "is_mat B N msk"
    and h: "h < att_heads self" and b: "b < B" and i: "i < N"
  obtains dots A where "Attention_dots self x = Inr dots"
    and "Attention_attn self keep x (Some msk) = Inr A"
    and "length (dots ! b ! h ! i) = N"
    and "length (A ! b ! h ! i) = N"
    and "\<And>j. j < N \<Longrightarrow> A ! b ! h ! i ! j =
           dropout4 (att_dropout self) keep (map (map (map softmax)) dots) ! b ! h ! i ! j
             * (1 - (if msk ! b ! j then 1 else 0))"
proof -
  have H: "att_heads self \<noteq> 0" using h by simp
  from Attention_dots_shape[OF x H] obtain dots where
    d: "Attention_dots self x = Inr dots" and lB: "length dots = B"
    and lH: "\<And>b. b < B \<Longrightarrow> length (dots ! b) = att_heads self"
    and lN: "\<And>b h. b < B \<Longrightarrow> h < att_heads self \<Longrightarrow> length (dots ! b ! h) = N"
    and lR: "\<And>b h i. b < B \<Longrightarrow> h < att_heads self \<Longrightarrow> i < N \<Longrightarrow> length (dots ! b ! h ! i) = N"
    by blast
  let ?sm = "map (map (map softmax)) dots"
  let ?attn = "dropout4 (att_dropout self) keep ?sm"
  have aB: "length ?attn = B" by (simp add: dropout4_lengths lB)
  have aH: "length (?attn ! b) = att_heads self"
    using b lH[OF b] by (simp add: dropout4_lengths lB)
  have aN: "length (?attn ! b ! h) = N"
    using b h lH[OF b] lN[OF b h] by (simp add: dropout4_lengths lB)
  have sx: "seq_len x = N" using seq_len_tensor3[OF x] b by simp
  have sm: "seq_len msk = N" using seq_len_is_mat[OF m] b by simp
  have mB: "length msk = B" using m by (simp add: is_mat_def)
  let ?A = "map (\<lambda>b. map (\<lambda>h. map (\<lambda>i. map (\<lambda>j.
                 ?attn ! bidx B b ! h ! i ! bidx N j
                   * (1 - (if msk ! bidx B b ! bidx N j then 1 else 0)))
               [0..<N])
               [0..<length (?attn ! bidx B b ! h)])
               [0..<length (?attn ! bidx B b)])
               [0..<B]"
  have mm: "mask_mul N ?attn msk = Inr ?A"
    by (simp add: mask_mul_def aB mB sm)
  have A: "Attention_attn self keep x (Some msk) = Inr ?A"
    by (simp add: Attention_attn_def d Let_def sx mm)
  have row: "?A ! b ! h ! i = map (\<lambda>j. ?attn ! b ! h ! i ! bidx N j
                   * (1 - (if msk ! b ! bidx N j then 1 else 0))) [0..<N]"
    using b h i aH aN by (simp add: bidx_id)
  show ?thesis
  proof (rule that[OF d A lR[OF b h i]])
    show "length (?A ! b ! h ! i) = N" by (simp add: row)
    show "?A ! b ! h ! i ! j = ?attn ! b ! h ! i ! j * (1 - (if msk ! b ! j then 1 else 0))"
      if "j < N" for j
      using that by (simp only: row) (simp add: bidx_id)
  qed
qed


lemma sum_list_masked:
  fixes f :: "nat \<Rightarrow> real"
  shows "(\<Sum>k\<leftarrow>ks. f k * (1 - (if P k then 1 else 0))) = (\<Sum>k\<leftarrow>filter (\<lambda>k. \<not> P k) ks. f k)"
  by (induction ks) simp_all

text \<open>The product with the mask for any weights of shape \<open>(B, H, N, N)\<close>, whatever the
  softmax and the dropout made them: an entry of a marked column is the weight times
  \<open>1 - 1\<close>, an entry of another column is the weight times \<open>1 - 0\<close>.\<close>

lemma mask_mul_entries:
  assumes "length attn = B" and "is_mat B N msk" and "b < B"
    and "h < length (attn ! b)" and "i < length (attn ! b ! h)"
  shows "\<exists>A. mask_mul N attn msk = Inr A \<and> length (A ! b ! h ! i) = N \<and>
           (\<forall>k<N. A ! b ! h ! i ! k = attn ! b ! h ! i ! k * (1 - (if msk ! b ! k then 1 else 0)))"
proof -
  have mB: "length msk = B" using assms(2) by (simp add: is_mat_def)
  have sm: "seq_len msk = N" using seq_len_is_mat[OF assms(2)] assms(3) by simp
  show ?thesis
    using assms(3,4,5)
    by (simp add: mask_mul_def assms(1) mB sm bidx_id)
qed

text \<open>
  C5, as amended. For an input of shape \<open>(B, N, dim)\<close> and a boolean mask of shape
  \<open>(B, N)\<close> that marks the key position \<open>j\<close> of the batch element \<open>b\<close>, the attention block
  computes its attention weights; in every head and row of \<open>b\<close> the entry of column \<open>j\<close> is
  exactly zero, and the rows are not renormalised: the entry of every column that the mask
  does not mark is the weight that softmax and dropout gave it, unchanged, so that the
  row sums to the sum of these remaining weights. (Nothing is said about that sum being
  below 1: no property of the values of the softmax is used.)
\<close>

theorem Attention_mask_zeroes_column:
  assumes "is_tensor3 B N (att_dim self) x" and "is_mat B N msk"
    and "b < B" and "h < att_heads self" and "i < N" and "j < N" and "msk ! b ! j"
  shows "\<exists>dots A. Attention_dots self x = Inr dots \<and>
           Attention_attn self keep x (Some msk) = Inr A \<and>
           A ! b ! h ! i ! j = 0 \<and>
           (\<forall>k<N. \<not> msk ! b ! k \<longrightarrow>
              A ! b ! h ! i ! k =
                dropout4 (att_dropout self) keep (map (map (map softmax)) dots) ! b ! h ! i ! k) \<and>
           sum_list (A ! b ! h ! i) =
             (\<Sum>k\<leftarrow>filter (\<lambda>k. \<not> msk ! b ! k) [0..<N].
                dropout4 (att_dropout self) keep (map (map (map softmax)) dots) ! b ! h ! i ! k)"
proof -
  from Attention_attn_masked[OF assms(1,2,4,3,5), of keep] obtain dots A where
    d: "Attention_dots self x = Inr dots"
    and A: "Attention_attn self keep x (Some msk) = Inr A"
    and lA: "length (A ! b ! h ! i) = N"
    and e: "\<And>k. k < N \<Longrightarrow> A ! b ! h ! i ! k =
           dropout4 (att_dropout self) keep (map (map (map softmax)) dots) ! b ! h ! i ! k
             * (1 - (if msk ! b ! k then 1 else 0))"
    by blast
  let ?W = "\<lambda>k. dropout4 (att_dropout self) keep (map (map (map softmax)) dots) ! b ! h ! i ! k"
  have zero: "A ! b ! h ! i ! j = 0"
    using e[OF assms(6)] assms(7) by simp
  have keep: "\<forall>k<N. \<not> msk ! b ! k \<longrightarrow> A ! b ! h ! i ! k = ?W k"
    using e by simp
  have row: "A ! b ! h ! i = map (\<lambda>k. ?W k * (1 - (if msk ! b ! k then 1 else 0))) [0..<N]"
    by (intro nth_equalityI) (simp_all add: lA e)
  have sum: "sum_list (A ! b ! h ! i) = (\<Sum>k\<leftarrow>filter (\<lambda>k. \<not> msk ! b ! k) [0..<N]. ?W k)"
    by (simp only: row sum_list_masked)
  from d A zero keep sum show ?thesis by blast
qed

lemmas att_eval = Attention_attn_def Attention_dots_def Attention_w_def linear_def split_heads_def
  dots_of_def matmul_def mat_t_def dot_def softmax_def dropout4_def dropout_elem_def mask_mul_def
  bdim_def bidx_def seq_len_def example_attention_def keep_all4_def Let_def

lemma example_attention_init:
  "Attention_init 1 1 1 (1/2) draw_one draw_one draw_zero = Inr (example_attention (1/2))"
  by (simp add: Attention_init_def Dropout_init_def example_attention_def rand_mat_def draw_one_def)

lemma cex_dots: "Attention_dots (example_attention (1/2)) [[[0], [0]]] = Inr [[[[0, 0], [0, 0]]]]"
  by (simp add: att_eval)

lemma cex_attn:
  "Attention_attn (example_attention (1/2)) keep_all4 [[[0], [0]]] (Some [[True, False]])
     = Inr [[[[0, 1], [0, 1]]]]"
  by (simp add: att_eval)

theorem Attention_dots_symmetric_witness:
  "Attention_dots (example_attention 0) [[[1], [3]]] = Inr [[[[1, 3], [3, 9]]]] \<and>
   (0::nat) < length [[[[1, 3], [3, 9::real]]]] \<and>
   (0::nat) < length ([[[[1, 3], [3, 9::real]]]] ! 0) \<and>
   (0::nat) < length ([[[[1, 3], [3, 9::real]]]] ! 0 ! 0) \<and>
   (1::nat) < length ([[[[1, 3], [3, 9::real]]]] ! 0 ! 0) \<and>
   [[[[1, 3], [3, 9::real]]]] ! 0 ! 0 ! 0 ! 1 = [[[[1, 3], [3, 9]]]] ! 0 ! 0 ! 1 ! 0"
proof -
  have d: "Attention_dots (example_attention 0) [[[1], [3]]] = Inr [[[[1, 3], [3, 9]]]]"
    by (simp add: att_eval)
  from Attention_dots_symmetric[OF d, of 0 0 0 1] d show ?thesis by simp
qed

theorem Attention_mask_zeroes_column_witness:
  "is_tensor3 1 2 (att_dim (example_attention 0)) [[[0], [0]]] \<and>
   is_mat 1 2 [[True, False]] \<and> (0::nat) < 1 \<and> 0 < att_heads (example_attention 0) \<and>
   (0::nat) < 2 \<and> [[True, False]] ! 0 ! 0 \<and>
   Attention_dots (example_attention 0) [[[0], [0]]] = Inr [[[[0, 0], [0, 0]]]] \<and>
   Attention_attn (example_attention 0) keep_all4 [[[0], [0]]] (Some [[True, False]])
     = Inr [[[[0, 1/2], [0, 1/2]]]] \<and>
   [[[[0, 1/2], [0, 1/2::real]]]] ! 0 ! 0 ! 0 ! 0 = 0 \<and>
   [[[[0, 1/2], [0, 1/2::real]]]] ! 0 ! 0 ! 0 ! 1 =
     dropout4 (att_dropout (example_attention 0)) keep_all4
       (map (map (map softmax)) [[[[0, 0], [0, 0]]]]) ! 0 ! 0 ! 0 ! 1 \<and>
   sum_list ([[[[0, 1/2], [0, 1/2::real]]]] ! 0 ! 0 ! 0) = 1/2"
proof -
  have ev: "Attention_attn (example_attention 0) keep_all4 [[[0], [0]]] (Some [[True, False]])
      = Inr [[[[0, 1/2], [0, 1/2]]]]"
    by (simp add: att_eval)
  have dv: "Attention_dots (example_attention 0) [[[0], [0]]] = Inr [[[[0, 0], [0, 0]]]]"
    by (simp add: att_eval)
  have "\<exists>dots A. Attention_dots (example_attention 0) [[[0], [0]]] = Inr dots \<and>
      Attention_attn (example_attention 0) keep_all4 [[[0], [0]]] (Some [[True, False]]) = Inr A \<and>
      A ! 0 ! 0 ! 0 ! 0 = 0 \<and>
      (\<forall>k<2. \<not> [[True, False]] ! 0 ! k \<longrightarrow>
         A ! 0 ! 0 ! 0 ! k =
           dropout4 (att_dropout (example_attention 0)) keep_all4
             (map (map (map softmax)) dots) ! 0 ! 0 ! 0 ! k) \<and>
      sum_list (A ! 0 ! 0 ! 0) =
        (\<Sum>k\<leftarrow>filter (\<lambda>k. \<not> [[True, False]] ! 0 ! k) [0..<2].
           dropout4 (att_dropout (example_attention 0)) keep_all4
             (map (map (map softmax)) dots) ! 0 ! 0 ! 0 ! k)"
    using Attention_mask_zeroes_column[of 1 2 "example_attention 0" "[[[0], [0]]]"
        "[[True, False]]" 0 0 0 0 keep_all4]
    by (simp add: is_tensor3_def is_mat_def example_attention_def)
  then obtain dots A where
    "Attention_dots (example_attention 0) [[[0], [0]]] = Inr dots"
    "Attention_attn (example_attention 0) keep_all4 [[[0], [0]]] (Some [[True, False]]) = Inr A"
    "A ! 0 ! 0 ! 0 ! 0 = 0"
    and k: "\<forall>k<2. \<not> [[True, False]] ! 0 ! k \<longrightarrow>
         A ! 0 ! 0 ! 0 ! k =
           dropout4 (att_dropout (example_attention 0)) keep_all4
             (map (map (map softmax)) dots) ! 0 ! 0 ! 0 ! k"
    by blast
  with ev dv have A: "A = [[[[0, 1/2], [0, 1/2]]]]" and D: "dots = [[[[0, 0], [0, 0]]]]"
    by simp_all
  have one: "[[[[0, 1/2], [0, 1/2::real]]]] ! 0 ! 0 ! 0 ! 1 =
     dropout4 (att_dropout (example_attention 0)) keep_all4
       (map (map (map softmax)) [[[[0, 0], [0, 0]]]]) ! 0 ! 0 ! 0 ! 1"
    using k[rule_format, of 1] by (simp add: A D)
  show ?thesis
    using ev dv one by (simp add: is_tensor3_def is_mat_def example_attention_def)
qed

text \<open>The claim's last part, that a masked row sums to strictly less than 1, fails: rate
  \<open>1/2\<close> in training mode doubles the kept weights, and the row \<open>[1/2, 1/2]\<close> of the
  softmax, masked at its first position, becomes \<open>[0, 1]\<close>.\<close>

theorem Attention_mask_row_sum_counterexample:
  "Attention_init 1 1 1 (1/2) draw_one draw_one draw_zero = Inr (example_attention (1/2)) \<and>
   Attention_dots (example_attention (1/2)) [[[0], [0]]] = Inr [[[[0, 0], [0, 0]]]] \<and>
   softmax [0, 0] ! 0 = 1/2 \<and>
   Attention_attn (example_attention (1/2)) keep_all4 [[[0], [0]]] (Some [[True, False]])
     = Inr [[[[0, 1], [0, 1]]]] \<and>
   \<not> sum_list ([[[[0, 1], [0, 1::real]]]] ! 0 ! 0 ! 0) < 1"
  using example_attention_init cex_dots cex_attn by (simp add: softmax_def)

section \<open>Properties of construction, of the wrapper and of the stack\<close>

lemma Transformer_new_five_args:
  "Transformer_new [a1, a2, a3, a4, a5] kwargs rnd = Inl TypeError"
  by (simp add: Transformer_new_def bind_args_def Transformer_init_sig_def Let_def)

lemma CRATE_init_never_succeeds: "\<exists>e. CRATE_init a rnd = Inl e"
  by (auto simp: CRATE_init_def Transformer_new_five_args Let_def split: prod.splits sum.splits)

text \<open>
  C1. The claim is that \<^verbatim>\<open>CRATE_tiny()\<close> constructs a model whose forward pass returns
  logits of shape \<open>(B, num_classes)\<close>. In the code the constructor raises
  \<^verbatim>\<open>TypeError\<close>, whatever the initial draws: line 152 calls \<^verbatim>\<open>Transformer\<close> with five
  positional arguments, and \<^verbatim>\<open>Transformer.__init__(self, cfg, ista=0.1)\<close> takes two.
\<close>

theorem CRATE_tiny_raises: "CRATE_tiny 1000 rnd = Inl TypeError"
  by (simp add: CRATE_tiny_def CRATE_preset_def CRATE_init_def pair_def Dropout_init_def
      Transformer_new_five_args)

text \<open>
  C2. The claim is that construction succeeds for every configuration with divisible
  image sizes and a recognised pooling. In the code it raises \<^verbatim>\<open>TypeError\<close> for such a
  configuration (image \<open>32 \<times> 48\<close>, patch 16, pooling \<^verbatim>\<open>mean\<close>), by the call of line 152;
  \<open>CRATE_init_never_succeeds\<close> shows that no configuration constructs a model.
\<close>

theorem CRATE_init_divisible_raises:
  "CRATE_init
     \<lparr>arg_image_size = Tuple 32 48, arg_patch_size = Single 16, arg_num_classes = 10,
      arg_dim = 8, arg_depth = 1, arg_heads = 2, arg_pool = ''mean'', arg_channels = 3,
      arg_dim_head = 4, arg_dropout = 0, arg_emb_dropout = 0, arg_ista = 0.1\<rparr> rnd
   = Inl TypeError"
  by (simp add: CRATE_init_def pair_def Dropout_init_def Transformer_new_five_args)

lemma Attention_call_one_arg: "Attention_call a keep keep' [v] [] = Inl TypeError"
  by (simp add: Attention_call_def bind_args_def Attention_forward_sig_def Let_def)

lemma PreNorm_Attention_without_mask:
  "pn_fn self = AttentionM a \<Longrightarrow>
   PreNorm_forward self keep keep' x None [] = Inl TypeError \<or>
   PreNorm_forward self keep keep' x None [] = Inl RuntimeError"
  by (auto simp: PreNorm_forward_def call_fn_def Attention_call_one_arg LayerNorm_forward_def
      split: sum.splits)

text \<open>\<^verbatim>\<open>CRATE.forward\<close> calls \<^verbatim>\<open>self.transformer(x)\<close> with one argument, and a
  wrapped attention block called with a mask returns.\<close>

lemma Transformer_call_one_arg: "Transformer_call self dr [v] [] = Inl TypeError"
  by (simp add: Transformer_call_def bind_args_def Transformer_forward_sig_def Let_def)

lemma PreNorm_Attention_with_mask_returns:
  "PreNorm_forward (PreNorm_init 1 (AttentionM (example_attention 0))) keep_all4 keep_all3
     [[[0], [0]]] (Some [[False, False]]) [] = Inr [[[0], [0]]]"
  by (simp add: PreNorm_forward_def PreNorm_init_def LayerNorm_forward_def LayerNorm_init_def
      layer_norm_vec_def mean_def call_fn_def Attention_call_def bind_args_def
      Attention_forward_sig_def Attention_forward_def attn_matmul_def merge_heads_def
      to_out_forward_def att_eval)

text \<open>
  C4. The claim is that the wrapped attention block can be called without a mask. In
  the code the wrapper then calls \<^verbatim>\<open>Attention.forward(self, x, mask)\<close> with the normalised
  input alone, and the call raises \<^verbatim>\<open>TypeError\<close>: \<open>mask\<close> has no default.
\<close>

theorem PreNorm_Attention_no_mask_raises:
  "PreNorm_forward (PreNorm_init 1 (AttentionM (example_attention 0))) keep_all4 keep_all3
     [[[0], [0]]] None [] = Inl TypeError"
  by (simp add: PreNorm_forward_def PreNorm_init_def LayerNorm_forward_def LayerNorm_init_def
      call_fn_def Attention_call_one_arg)

lemma foldl_bindE_Inl: "foldl (\<lambda>acc y. bindE acc (f y)) (Inl e) ys = Inl e"
  by (induction ys) (simp_all add: bindE_def)

lemma Transformer_layers_Cons:
  "Transformer_layers (layer # rest) dr l msk x =
     bindE (spec_layer msk dr (l, layer) x) (Transformer_layers rest dr (Suc l) msk)"
  by (cases layer) (simp add: spec_layer_def bindE_def split: sum.splits)

lemma zip_upt_Cons:
  "zip [l..<l + length (y # ys)] (y # ys) = (l, y) # zip [Suc l..<Suc l + length ys] ys"
proof -
  have "[l..<l + Suc (length ys)] = l # [Suc l..<l + Suc (length ys)]"
    by (rule upt_conv_Cons) simp
  then show ?thesis by simp
qed

text \<open>
  C6. The loop over the layers applies to the running representation, layer by layer
  in order, the update \<open>x := PreNorm(FeedForward)(PreNorm(Attention)(x, mask) + x)\<close>: a
  residual around the attention, none around the feed-forward block, whose output
  replaces \<open>x\<close>; the first error ends the loop.
\<close>

theorem Transformer_layers_spec:
  "Transformer_layers ls dr l msk x =
     foldl (\<lambda>acc layer. bindE acc (spec_layer msk dr layer)) (Inr x) (zip [l..<l + length ls] ls)"
proof (induction ls arbitrary: l x)
  case Nil
  show ?case by simp
next
  case (Cons layer rest)
  let ?f = "\<lambda>acc layer. bindE acc (spec_layer msk dr layer)"
  have step: "foldl ?f (Inr x) (zip [l..<l + length (layer # rest)] (layer # rest)) =
      foldl ?f (spec_layer msk dr (l, layer) x) (zip [Suc l..<Suc l + length rest] rest)"
    by (simp only: zip_upt_Cons foldl_Cons) (simp add: bindE_def)
  show ?case
  proof (cases "spec_layer msk dr (l, layer) x")
    case (Inl e)
    have "Transformer_layers (layer # rest) dr l msk x = Inl e"
      by (simp add: Transformer_layers_Cons Inl bindE_def)
    also have "\<dots> = foldl ?f (Inl e) (zip [Suc l..<Suc l + length rest] rest)"
      by (simp only: foldl_bindE_Inl)
    also have "\<dots> = foldl ?f (Inr x) (zip [l..<l + length (layer # rest)] (layer # rest))"
      by (simp only: step Inl)
    finally show ?thesis .
  next
    case (Inr x')
    have "Transformer_layers (layer # rest) dr l msk x = Transformer_layers rest dr (Suc l) msk x'"
      by (simp add: Transformer_layers_Cons Inr bindE_def)
    also have "\<dots> = foldl ?f (Inr x') (zip [Suc l..<Suc l + length rest] rest)"
      by (rule Cons.IH)
    also have "\<dots> = foldl ?f (Inr x) (zip [l..<l + length (layer # rest)] (layer # rest))"
      by (simp only: step Inr)
    finally show ?thesis .
  qed
qed

end
